theory Spec2Isabelle
  imports Complex_Main "HOL-Library.Word"
begin

unbundle bit_operations_syntax

section \<open>Tokens and errors\<close>

text \<open>
  A command is a list of tokens. An ordinary token is a Python \<open>str\<close>; the token that
  stands for a parenthesised block is an \<open>AnnotatedString\<close>: a string equal to
  \<open>hexdata_text\<close> that carries the list of sub-tokens in its attribute \<open>values\<close>.
\<close>

datatype token = Str string | AnnotatedString "string list"

definition hexdata_text :: string where
  "hexdata_text = ''(<hexdata>)''"

fun text_of :: "token \<Rightarrow> string" where
  "text_of (Str s) = s"
| "text_of (AnnotatedString vals) = hexdata_text"

text \<open>
  Exceptions are values. \<open>SvfError\<close> is the error class the module declares; its payload is
  the tuple of arguments it was raised with. An argument is a string (\<open>S\<close>), a line number
  (\<open>N\<close>), the \<open>repr\<close> of a string (\<open>R\<close>), or a format string applied with \<open>%\<close> to its
  arguments (\<open>F\<close>). The other constructors are the built-in exceptions that the code can
  raise without catching them.
\<close>

datatype arg = S string | N nat | R string | F string "arg list"

datatype error =
    SvfError "arg list"
  | NameError string
  | UnboundLocalError string
  | KeyError string
  | AttributeError string
  | IndexError
  | TypeError
  | AssertionError
  | StopIteration

fun is_SvfError :: "error \<Rightarrow> bool" where
  "is_SvfError (SvfError args) = True"
| "is_SvfError e = False"

section \<open>Built-in string functions\<close>

definition to_upper :: "char \<Rightarrow> char" where
  "to_upper c = (let n = (of_char c :: nat) in if 97 \<le> n \<and> n \<le> 122 then char_of (n - 32) else c)"

definition upper :: "string \<Rightarrow> string" where
  "upper s = map to_upper s"

definition is_digit :: "char \<Rightarrow> bool" where
  "is_digit c = (let n = (of_char c :: nat) in 48 \<le> n \<and> n \<le> 57)"

definition digit_val :: "char \<Rightarrow> nat" where
  "digit_val c = of_char c - 48"

definition digits_val :: "string \<Rightarrow> nat" where
  "digits_val s = foldl (\<lambda>acc c. 10 * acc + digit_val c) 0 s"

text \<open>
  \<open>int(s)\<close> on a token. Tokens hold no white space, so what \<open>int\<close> accepts is an optional
  sign followed by one or more decimal digits; anything else is the \<open>ValueError\<close>
  (\<open>None\<close> here) that the callers turn into an \<open>SvfError\<close>.
\<close>

definition py_digits :: "string \<Rightarrow> int option" where
  "py_digits s = (if s \<noteq> [] \<and> list_all is_digit s then Some (int (digits_val s)) else None)"

fun py_int :: "string \<Rightarrow> int option" where
  "py_int [] = None"
| "py_int (c # s) =
     (if c = CHR ''-'' then map_option uminus (py_digits s)
      else if c = CHR ''+'' then py_digits s
      else py_digits (c # s))"

text \<open>\<open>binascii.unhexlify\<close>: \<open>None\<close> is its \<open>TypeError\<close> (odd length, or a character that is no hex digit).\<close>

definition hexval :: "char \<Rightarrow> nat option" where
  "hexval c = (let n = (of_char c :: nat) in
     if 48 \<le> n \<and> n \<le> 57 then Some (n - 48)
     else if 65 \<le> n \<and> n \<le> 70 then Some (n - 55)
     else if 97 \<le> n \<and> n \<le> 102 then Some (n - 87)
     else None)"

fun unhexlify :: "string \<Rightarrow> 8 word list option" where
  "unhexlify [] = Some []"
| "unhexlify [a] = None"
| "unhexlify (a # b # rest) =
     (case (hexval a, hexval b) of
        (Some x, Some y) \<Rightarrow>
          (case unhexlify rest of
             None \<Rightarrow> None
           | Some bs \<Rightarrow> Some (of_nat (16 * x + y) # bs))
      | _ \<Rightarrow> None)"

section \<open>Class-level tables\<close>

definition timing :: "string \<rightharpoonup> nat" where
  "timing = [''TCK'' \<mapsto> 0, ''SCK'' \<mapsto> 1, ''SEC'' \<mapsto> 2]"

definition paramtypes :: "string list" where
  "paramtypes = [''MASK'', ''SMASK'', ''TDI'', ''TDO'']"

definition stable :: "string set" where
  "stable = {''IRPAUSE'', ''DRPAUSE'', ''RESET'', ''IDLE''}"

definition valid_trst :: "string \<rightharpoonup> int" where
  "valid_trst = [''ON'' \<mapsto> 1, ''OFF'' \<mapsto> 0, ''Z'' \<mapsto> 2, ''ABSENT'' \<mapsto> 3]"

text \<open>
  The table \<open>states\<close> is filled from the attributes of \<open>playtag.jtag.states.states\<close>, a module
  that is not part of the sources at hand. Its attributes are therefore a parameter: the
  list \<open>jtagstates\<close> of (attribute name, state id) pairs in the order \<open>iteritems\<close> gives them.
  The key of an attribute is its name split at underscores, the pieces reversed, joined and
  put in upper case, so that \<open>pause_ir\<close> is found as \<open>IRPAUSE\<close>. The values are taken to be
  state ids of one type \<open>'s\<close>, none of them \<open>None\<close>.
\<close>

fun split :: "char \<Rightarrow> string \<Rightarrow> string list" where
  "split sep [] = [[]]"
| "split sep (c # s) =
     (if c = sep then [] # split sep s
      else (case split sep s of
              [] \<Rightarrow> [[c]]
            | w # ws \<Rightarrow> (c # w) # ws))"

definition state_key :: "string \<Rightarrow> string" where
  "state_key x = upper (concat (rev (split CHR ''_'' x)))"

definition states_of :: "(string \<times> 's) list \<Rightarrow> (string \<rightharpoonup> 's)" where
  "states_of jtagstates = fold (\<lambda>(x, y) states. states(state_key x \<mapsto> y)) jtagstates Map.empty"

section \<open>The parser's state and its output records\<close>

text \<open>
  A register dictionary (\<open>sticky[cmd]\<close>) maps \<open>length\<close> to an integer and each parameter name
  to a (length, bytes) tuple. The type of floating-point numbers is a parameter \<open>'f\<close>, with
  \<open>float :: string \<Rightarrow> 'f option\<close> for the conversion (\<open>None\<close> when \<open>float(s)\<close> raises).
\<close>

datatype regval = IntV int | Tuple int "8 word list"

type_synonym regdict = "string \<rightharpoonup> regval"

definition nodata :: regval where
  "nodata = Tuple 0 []"

record ('s, 'f) session =
  sticky :: "string \<rightharpoonup> regdict"
  FREQUENCY :: "'f option"
  ENDDR :: 's
  ENDIR :: 's
  RUNSTATE :: 's
  ENDSTATE :: 's

text \<open>
  The header, data and trailer fields of a \<open>Shift\<close> record are the register dictionaries
  themselves, objects that later commands update in place; the model names each by its key
  in \<open>sticky\<close>, and \<open>sticky\<close> of the state at the time of the yield gives what it holds.
\<close>

datatype ('s, 'f) action =
    Frequency "'f option" nat
  | Shift string string string string 's nat
  | RunTest "int option" bool "'f option list" 's 's nat
  | State "'s list" nat
  | Trst int nat

definition init_reg :: regdict where
  "init_reg = fold (\<lambda>param cmddict. cmddict(param \<mapsto> nodata)) paramtypes [''length'' \<mapsto> IntV 0]"

definition init_sticky :: "string \<rightharpoonup> regdict" where
  "init_sticky =
     fold (\<lambda>cmd sticky. sticky(cmd \<mapsto> init_reg)) [''SIR'', ''SDR'', ''HIR'', ''HDR'', ''TIR'', ''TDR''] Map.empty"

definition init :: "(string \<rightharpoonup> 's) \<Rightarrow> error + ('s, 'f) session" where
  "init states =
     (case states ''IDLE'' of
        None \<Rightarrow> Inl (AttributeError ''IDLE'')
      | Some idle \<Rightarrow>
          Inr \<lparr>sticky = init_sticky, FREQUENCY = None, ENDDR = idle, ENDIR = idle,
               RUNSTATE = idle, ENDSTATE = idle\<rparr>)"

text \<open>
  \<open>setattr(self, cmd, v)\<close> and \<open>getattr(self, name)\<close> for the two attributes the dispatch
  table reaches them with.
\<close>

definition setattr :: "('s, 'f) session \<Rightarrow> string \<Rightarrow> 's \<Rightarrow> ('s, 'f) session" where
  "setattr self name v =
     (if name = ''ENDIR'' then self\<lparr>ENDIR := v\<rparr>
      else if name = ''ENDDR'' then self\<lparr>ENDDR := v\<rparr>
      else self)"

definition getattr :: "('s, 'f) session \<Rightarrow> string \<Rightarrow> error + 's" where
  "getattr self name =
     (if name = ''ENDIR'' then Inr (ENDIR self)
      else if name = ''ENDDR'' then Inr (ENDDR self)
      else Inl (AttributeError name))"

type_synonym ('s, 'f) outcome = "error + (('s, 'f) session \<times> ('s, 'f) action option)"

section \<open>ENDIR and ENDDR\<close>

definition cmd_enddrir ::
  "(string \<rightharpoonup> 's) \<Rightarrow> ('s, 'f) session \<Rightarrow> string \<Rightarrow> token list \<Rightarrow> nat \<Rightarrow> ('s, 'f) outcome" where
  "cmd_enddrir states self cmd iterparams linenum =
     (case iterparams of
        [] \<Rightarrow> Inl (UnboundLocalError ''state'')
      | state # rest \<Rightarrow>
          if text_of state \<notin> stable then
            Inl (SvfError [F ''%s is not a valid SVF stable state'' [S (text_of state)]])
          else if rest \<noteq> [] then
            Inl (SvfError [S ''Expected single state parameter''])
          else (case states (text_of state) of
                  None \<Rightarrow> Inl (KeyError (text_of state))
                | Some s \<Rightarrow> Inr (setattr self cmd s, None)))"

section \<open>FREQUENCY\<close>

definition cmd_frequency ::
  "(string \<Rightarrow> 'f option) \<Rightarrow> ('s, 'f) session \<Rightarrow> string \<Rightarrow> token list \<Rightarrow> nat \<Rightarrow> ('s, 'f) outcome" where
  "cmd_frequency float self cmd iterparams linenum =
     (case iterparams of
        [] \<Rightarrow> Inr (self\<lparr>FREQUENCY := None\<rparr>, Some (Frequency None linenum))
      | freq # rest \<Rightarrow>
          (case float (text_of freq) of
             None \<Rightarrow> Inl (SvfError [F ''%s is not a valid floating point number'' [S (text_of freq)]])
           | Some x \<Rightarrow>
               if length rest \<noteq> 1 \<or> text_of (last rest) \<noteq> ''HZ'' then
                 Inl (SvfError [S ''Unexpected text after frequency''])
               else Inr (self\<lparr>FREQUENCY := Some x\<rparr>, Some (Frequency (Some x) linenum))))"

section \<open>STATE\<close>

fun state_loop :: "(string \<rightharpoonup> 's) \<Rightarrow> 's list \<Rightarrow> token list \<Rightarrow> error + 's list" where
  "state_loop states statelist [] = Inr statelist"
| "state_loop states statelist (state # rest) =
     (case states (text_of state) of
        None \<Rightarrow> Inl (SvfError [F ''Invalid state %s'' [S (text_of state)]])
      | Some s \<Rightarrow> state_loop states (statelist @ [s]) rest)"

definition cmd_state ::
  "(string \<rightharpoonup> 's) \<Rightarrow> ('s, 'f) session \<Rightarrow> string \<Rightarrow> token list \<Rightarrow> nat \<Rightarrow> ('s, 'f) outcome" where
  "cmd_state states self cmd iterparams linenum =
     (case state_loop states [] iterparams of
        Inl e \<Rightarrow> Inl e
      | Inr statelist \<Rightarrow>
          if iterparams = [] then Inl (UnboundLocalError ''state'')
          else if text_of (last iterparams) \<notin> stable then
            Inl (SvfError [F ''%s is not a stable state'' [S (text_of (last iterparams))]])
          else Inr (self, Some (State statelist linenum)))"

section \<open>TRST\<close>

definition cmd_trst :: "('s, 'f) session \<Rightarrow> string \<Rightarrow> token list \<Rightarrow> nat \<Rightarrow> ('s, 'f) outcome" where
  "cmd_trst self cmd iterparams linenum =
     (case iterparams of
        [param] \<Rightarrow>
          (case valid_trst (text_of param) of
             None \<Rightarrow> Inl (KeyError (text_of param))
           | Some v \<Rightarrow> Inr (self, Some (Trst v linenum)))
      | _ \<Rightarrow> Inl (SvfError [S ''Expected a single parameter'']))"

section \<open>Registers: HDR, HIR, TDR, TIR and the first phase of SIR and SDR\<close>

text \<open>
  The first loop of \<open>cmd_reg\<close>: a parameter whose stored length is nonzero and differs from
  the new length is set back to \<open>nodata\<close>.
\<close>

fun invalidate :: "int \<Rightarrow> string list \<Rightarrow> regdict \<Rightarrow> error + regdict" where
  "invalidate len [] mydict = Inr mydict"
| "invalidate len (p # ps) mydict =
     (case mydict p of
        None \<Rightarrow> Inl (KeyError p)
      | Some (IntV n) \<Rightarrow> Inl TypeError
      | Some (Tuple plen bytes) \<Rightarrow>
          invalidate len ps
            (if plen \<noteq> 0 \<and> plen \<noteq> len then mydict(p \<mapsto> nodata) else mydict))"

text \<open>
  The hex data of a block: the sub-tokens, with \<open>0\<close> put in front when their lengths sum to
  an odd number, are joined and decoded.
\<close>

definition hexdata :: "string list \<Rightarrow> 8 word list option" where
  "hexdata data =
     unhexlify (concat (if sum_list (map length data) AND 1 \<noteq> 0 then ''0'' # data else data))"

text \<open>The second loop of \<open>cmd_reg\<close>: parameter names, each followed by its block.\<close>

fun reg_params :: "int \<Rightarrow> regdict \<Rightarrow> token list \<Rightarrow> error + regdict" where
  "reg_params len mydict [] = Inr mydict"
| "reg_params len mydict (param # rest) =
     (if mydict (text_of param) = None then
        Inl (SvfError [F ''Unknown parameter name %s'' [R (text_of param)]])
      else (case rest of
              [] \<Rightarrow> Inl (SvfError [F ''Expected (<hex data>) after parameter %s'' [S (text_of param)]])
            | data # rest' \<Rightarrow>
                if text_of data \<noteq> hexdata_text then
                  Inl (SvfError [F ''Expected (<hex data>) after parameter %s'' [S (text_of param)]])
                else (case data of
                        Str s \<Rightarrow> Inl (AttributeError ''values'')
                      | AnnotatedString vals \<Rightarrow>
                          (case hexdata vals of
                             None \<Rightarrow>
                               Inl (SvfError [F ''Invalid (<hex data>) for parameter %s'' [S (text_of param)]])
                           | Some bytes \<Rightarrow>
                               reg_params len (mydict(text_of param \<mapsto> Tuple len bytes)) rest'))))"

definition cmd_reg ::
  "('s, 'f) session \<Rightarrow> string \<Rightarrow> token list \<Rightarrow> nat \<Rightarrow> ('s, 'f) outcome" where
  "cmd_reg self cmd iterparams linenum =
     (case sticky self cmd of
        None \<Rightarrow> Inl (KeyError cmd)
      | Some mydict \<Rightarrow>
          (case iterparams of
             [] \<Rightarrow> Inl (SvfError [S ''Missing or invalid bit count''])
           | n # rest \<Rightarrow>
               (case py_int (text_of n) of
                  None \<Rightarrow> Inl (SvfError [S ''Missing or invalid bit count''])
                | Some len \<Rightarrow>
                    (case invalidate len paramtypes (mydict(''length'' \<mapsto> IntV len)) of
                       Inl e \<Rightarrow> Inl e
                     | Inr mydict1 \<Rightarrow>
                         (case reg_params len mydict1 rest of
                            Inl e \<Rightarrow> Inl e
                          | Inr mydict2 \<Rightarrow>
                              Inr (self\<lparr>sticky := (sticky self)(cmd \<mapsto> mydict2)\<rparr>, None))))))"

section \<open>SIR and SDR\<close>

definition cmd_shift ::
  "('s, 'f) session \<Rightarrow> string \<Rightarrow> token list \<Rightarrow> nat \<Rightarrow> ('s, 'f) outcome" where
  "cmd_shift self cmd iterparams linenum =
     (case cmd_reg self cmd iterparams linenum of
        Inl e \<Rightarrow> Inl e
      | Inr (self1, none) \<Rightarrow>
          if cmd \<noteq> ''SIR'' \<and> cmd \<noteq> ''SDR'' then Inl AssertionError
          else
            (let header = ''H'' @ drop 1 cmd;
                 trailer = ''T'' @ drop 1 cmd
             in case getattr self1 (''END'' @ [cmd ! 1] @ ''R'') of
                  Inl e \<Rightarrow> Inl e
                | Inr endstate \<Rightarrow>
                    if sticky self1 header = None then Inl (KeyError header)
                    else if sticky self1 trailer = None then Inl (KeyError trailer)
                    else Inr (self1, Some (Shift cmd header cmd trailer endstate linenum))))"

section \<open>RUNTEST\<close>

text \<open>
  The local variables of \<open>cmd_runtest\<close> that live across the iterations of its loop.
  \<open>prev_num\<close> holds the pending token, if any.
\<close>

record 'f runtest_vars =
  use_sck :: bool
  secs :: "'f option list"
  numclocks :: "int option"
  do_max :: bool
  do_end :: bool
  did_end :: bool
  prev_num :: "token option"

definition runtest_init :: "'f runtest_vars" where
  "runtest_init =
     \<lparr>use_sck = False, secs = [None, None], numclocks = None,
      do_max = False, do_end = False, did_end = False, prev_num = None\<rparr>"

text \<open>
  \<open>numclocks != secs[0]\<close> compares an integer or \<open>None\<close> with a float or \<open>None\<close>. The equality
  of an integer and a float is the parameter \<open>int_eq_float\<close>.
\<close>

definition py_ne :: "(int \<Rightarrow> 'f \<Rightarrow> bool) \<Rightarrow> int option \<Rightarrow> 'f option \<Rightarrow> bool" where
  "py_ne int_eq_float a b =
     (case (a, b) of
        (None, None) \<Rightarrow> False
      | (Some n, Some x) \<Rightarrow> \<not> int_eq_float n x
      | _ \<Rightarrow> True)"

text \<open>
  One iteration of the loop. In the two branches that read \<open>states[param]\<close> the name
  \<open>states\<close> is neither a local nor a global of the module (the table is the class attribute
  \<open>self.states\<close>), so the lookup raises \<open>NameError\<close> before anything is assigned to
  \<open>self.RUNSTATE\<close> or \<open>self.ENDSTATE\<close>.
\<close>

definition runtest_step ::
  "(string \<Rightarrow> 'f option) \<Rightarrow> (int \<Rightarrow> 'f \<Rightarrow> bool) \<Rightarrow> 'f runtest_vars \<Rightarrow> token \<Rightarrow> error + 'f runtest_vars" where
  \<open>runtest_step float int_eq_float vars param =
     (let num = prev_num vars;
          v = vars\<lparr>prev_num := None\<rparr>;
          clock_specified = py_ne int_eq_float (numclocks v) (secs v ! 0)
      in case num of
           Some n \<Rightarrow>
             (case timing (text_of param) of
                None \<Rightarrow> Inl (SvfError [F ''Unexpected clause "%s %s"'' [S (text_of n), S (text_of param)]])
              | Some clocktype \<Rightarrow>
                  if clocktype = 2 then
                    (if secs v ! of_bool (do_max v) \<noteq> None then
                       Inl (SvfError [F ''%sSeconds specified twice''
                                [S (if do_max v then ''Maximum '' else [])]])
                     else (case float (text_of n) of
                             None \<Rightarrow>
                               Inl (SvfError [F ''%s is not a valid floating point number'' [S (text_of n)]])
                           | Some x \<Rightarrow> Inr (v\<lparr>secs := (secs v)[of_bool (do_max v) := Some x]\<rparr>)))
                  else
                    (let v1 = v\<lparr>use_sck := (clocktype = 1)\<rparr>
                     in if do_max v1 \<or> clock_specified then
                          Inl (SvfError [F ''Invalid %s specification'' [S (text_of param)]])
                        else (case py_int (text_of n) of
                                None \<Rightarrow>
                                  Inl (SvfError [F ''%s is not a valid integer number'' [S (text_of n)]])
                              | Some k \<Rightarrow> Inr (v1\<lparr>numclocks := Some k\<rparr>))))
         | None \<Rightarrow>
             if text_of param \<in> stable then
               (if do_end v \<and> \<not> did_end v \<and> clock_specified then Inl (NameError ''states'')
                else if \<not> do_end v \<and> \<not> clock_specified then Inl (NameError ''states'')
                else Inl (SvfError [F ''Unexpected state %s'' [S (text_of param)]]))
             else if do_end v then Inl (SvfError [F ''Invalid endstate %s'' [S (text_of param)]])
             else if text_of param = ''MAXIMUM'' then
               (if secs v ! 0 = None \<or> secs v ! 1 \<noteq> None then
                  Inl (SvfError [S ''Cannot do MAXIMUM SEC without SEC''])
                else Inr (v\<lparr>do_max := True\<rparr>))
             else if text_of param = ''ENDSTATE'' then
               (if \<not> clock_specified then Inl (SvfError [S ''Unexpected ENDSTATE''])
                else Inr (v\<lparr>do_end := True\<rparr>))
             else Inr (v\<lparr>prev_num := Some param\<rparr>))\<close>

fun runtest_loop ::
  "(string \<Rightarrow> 'f option) \<Rightarrow> (int \<Rightarrow> 'f \<Rightarrow> bool) \<Rightarrow> 'f runtest_vars \<Rightarrow> token list \<Rightarrow> error + 'f runtest_vars" where
  "runtest_loop float int_eq_float vars [] = Inr vars"
| "runtest_loop float int_eq_float vars (param # rest) =
     (case runtest_step float int_eq_float vars param of
        Inl e \<Rightarrow> Inl e
      | Inr vars1 \<Rightarrow> runtest_loop float int_eq_float vars1 rest)"

definition cmd_runtest ::
  "(string \<Rightarrow> 'f option) \<Rightarrow> (int \<Rightarrow> 'f \<Rightarrow> bool) \<Rightarrow> ('s, 'f) session \<Rightarrow> string \<Rightarrow> token list \<Rightarrow> nat
     \<Rightarrow> ('s, 'f) outcome" where
  "cmd_runtest float int_eq_float self cmd iterparams linenum =
     (case runtest_loop float int_eq_float runtest_init iterparams of
        Inl e \<Rightarrow> Inl e
      | Inr v \<Rightarrow>
          Inr (self, Some (RunTest (numclocks v) (use_sck v) (secs v)
                             (RUNSTATE self) (ENDSTATE self) linenum)))"

section \<open>The command assembler\<close>

text \<open>\<open>t in s\<close> on strings: \<open>t\<close> occurs in \<open>s\<close> as a contiguous piece.\<close>

fun startswith :: "string \<Rightarrow> string \<Rightarrow> bool" where
  "startswith s [] = True"
| "startswith [] (c # t) = False"
| "startswith (d # s) (c # t) = (d = c \<and> startswith s t)"

fun py_in :: "string \<Rightarrow> string \<Rightarrow> bool" where
  "py_in t [] = (t = [])"
| "py_in t (c # s) = (startswith (c # s) t \<or> py_in t s)"

text \<open>
  \<open>getcmds\<close> is a generator: it yields commands one by one and may raise after some were
  yielded. Its result is the list of commands yielded and the error that ended it, if any.
  \<open>getcmds_loop\<close> is the outer loop, at a point where the buffer is \<open>cmd\<close>, and
  \<open>getcmds_sub\<close> the inner loop that collects \<open>subcmd\<close> from the same iterator; when the
  inner loop runs out of tokens, the outer one ends too.
\<close>

type_synonym command = "token list \<times> nat"

fun getcmds_loop :: "token list \<Rightarrow> nat \<Rightarrow> (string \<times> nat) list \<Rightarrow> command list \<times> error option"
and getcmds_sub ::
  "token list \<Rightarrow> nat \<Rightarrow> string list \<Rightarrow> (string \<times> nat) list \<Rightarrow> command list \<times> error option" where
  "getcmds_loop cmd cmdlinenum [] = (if cmd \<noteq> [] then [(cmd, cmdlinenum)] else [], None)"
| "getcmds_loop cmd cmdlinenum ((token, linenum) # tokens) =
     (if \<not> py_in token '';('' then
        getcmds_loop (cmd @ [Str (upper token)])
          (if cmdlinenum \<noteq> 0 then cmdlinenum else linenum) tokens
      else if token = '';'' then
        (if cmd = [] then getcmds_loop cmd cmdlinenum tokens
         else (case getcmds_loop [] 0 tokens of
                 (cmds, err) \<Rightarrow> ((cmd, cmdlinenum) # cmds, err)))
      else getcmds_sub cmd cmdlinenum [] tokens)"
| "getcmds_sub cmd cmdlinenum subcmd [] =
     (if cmd \<noteq> [] then [(cmd, cmdlinenum)] else [], None)"
| \<open>getcmds_sub cmd cmdlinenum subcmd ((token, linenum) # tokens) =
     (if py_in token '');'' then
        (if token = '';'' then
           (case cmd of
              [] \<Rightarrow> ([], Some IndexError)
            | c # cs \<Rightarrow>
                ([], Some (SvfError [S ''Missing ")" in command %s on line %s'', R (text_of c), N cmdlinenum])))
         else getcmds_loop (cmd @ [AnnotatedString subcmd]) cmdlinenum tokens)
      else getcmds_sub cmd cmdlinenum (subcmd @ [token]) tokens)\<close>

definition getcmds :: "(string \<times> nat) list \<Rightarrow> command list \<times> error option" where
  "getcmds tokens = getcmds_loop [] 0 tokens"

section \<open>Dispatch\<close>

text \<open>
  The body of the loop of \<open>parse\<close> for one command: the first token selects the interpreter
  in the table \<open>cmds\<close>, which gets the remaining tokens.
\<close>

definition parse_cmd ::
  "(string \<rightharpoonup> 's) \<Rightarrow> (string \<Rightarrow> 'f option) \<Rightarrow> (int \<Rightarrow> 'f \<Rightarrow> bool) \<Rightarrow> ('s, 'f) session \<Rightarrow> command
     \<Rightarrow> ('s, 'f) outcome" where
  "parse_cmd states float int_eq_float self c =
     (case c of
        ([], linenum) \<Rightarrow> Inl StopIteration
      | (t # iterparams, linenum) \<Rightarrow>
          (let cmd = text_of t
           in if cmd = ''ENDIR'' \<or> cmd = ''ENDDR'' then cmd_enddrir states self cmd iterparams linenum
              else if cmd = ''FREQUENCY'' then cmd_frequency float self cmd iterparams linenum
              else if cmd = ''HDR'' \<or> cmd = ''HIR'' \<or> cmd = ''TDR'' \<or> cmd = ''TIR'' then
                cmd_reg self cmd iterparams linenum
              else if cmd = ''SIR'' \<or> cmd = ''SDR'' then cmd_shift self cmd iterparams linenum
              else if cmd = ''RUNTEST'' then
                cmd_runtest float int_eq_float self cmd iterparams linenum
              else if cmd = ''STATE'' then cmd_state states self cmd iterparams linenum
              else if cmd = ''TRST'' then cmd_trst self cmd iterparams linenum
              else Inl (SvfError [S ''Unknown command''])))"

section \<open>The driver\<close>

text \<open>
  \<open>parse\<close> runs the interpreters over the commands that \<open>getcmds\<close> yields and yields their
  records. Its result is the list of records yielded and either the state at the end or the
  exception that ended it. An \<open>SvfError\<close>, from an interpreter or from \<open>getcmds\<close>, is raised
  again with the line and the command that the loop has bound at that point (\<open>bound\<close>;
  nothing is bound before the first command). Reading the file and splitting its lines into
  tokens (\<open>fileiter\<close>, \<open>gettokens\<close>) are outside the model: \<open>parse\<close> takes the tokens.
\<close>

definition message :: "arg list \<Rightarrow> arg" where
  "message args = (case args of [a] \<Rightarrow> a | _ \<Rightarrow> S [])"

definition reraise :: "string \<Rightarrow> (nat \<times> token) option \<Rightarrow> error \<Rightarrow> error" where
  "reraise fname bound e =
     (case e of
        SvfError args \<Rightarrow>
          (case bound of
             None \<Rightarrow> UnboundLocalError ''linenum''
           | Some (linenum, cmd) \<Rightarrow>
               SvfError [F (''Error in line %s of file %s:'' @ [CHR 0x0A] @ ''   Command %s: %s'')
                           [N linenum, S fname, S (text_of cmd), message args]])
      | _ \<Rightarrow> e)"

fun parse_loop ::
  "(string \<rightharpoonup> 's) \<Rightarrow> (string \<Rightarrow> 'f option) \<Rightarrow> (int \<Rightarrow> 'f \<Rightarrow> bool) \<Rightarrow> string \<Rightarrow> ('s, 'f) session
     \<Rightarrow> (nat \<times> token) option \<Rightarrow> command list \<Rightarrow> error option
     \<Rightarrow> ('s, 'f) action list \<times> (error + ('s, 'f) session)" where
  "parse_loop states float int_eq_float fname self bound [] None = ([], Inr self)"
| "parse_loop states float int_eq_float fname self bound [] (Some e) =
     ([], Inl (reraise fname bound e))"
| "parse_loop states float int_eq_float fname self bound (([], linenum) # cmds) err =
     ([], Inl StopIteration)"
| "parse_loop states float int_eq_float fname self bound ((cmd # iterparams, linenum) # cmds) err =
     (case parse_cmd states float int_eq_float self (cmd # iterparams, linenum) of
        Inl e \<Rightarrow> ([], Inl (reraise fname (Some (linenum, cmd)) e))
      | Inr (self1, v) \<Rightarrow>
          (case parse_loop states float int_eq_float fname self1 (Some (linenum, cmd)) cmds err of
             (out, r) \<Rightarrow> ((case v of None \<Rightarrow> [] | Some a \<Rightarrow> [a]) @ out, r)))"

definition parse ::
  "(string \<rightharpoonup> 's) \<Rightarrow> (string \<Rightarrow> 'f option) \<Rightarrow> (int \<Rightarrow> 'f \<Rightarrow> bool) \<Rightarrow> ('s, 'f) session \<Rightarrow> string
     \<Rightarrow> (string \<times> nat) list \<Rightarrow> ('s, 'f) action list \<times> (error + ('s, 'f) session)" where
  "parse states float int_eq_float self fname tokens =
     (case getcmds tokens of
        (cmds, err) \<Rightarrow> parse_loop states float int_eq_float fname self None cmds err)"

section \<open>Reading the sticky store\<close>

text \<open>
  \<open>stored self cmd p\<close> is \<open>self.sticky[cmd][p]\<close>; \<open>stored_by r cmd p\<close> is the same in the state
  that one interpreter left, and \<open>stored_after r cmd p\<close> in the state that a run of \<open>parse\<close>
  ended in (\<open>None\<close> when the key is missing or an exception was raised).
\<close>

definition stored :: "('s, 'f) session \<Rightarrow> string \<Rightarrow> string \<Rightarrow> regval option" where
  "stored self cmd p = (case sticky self cmd of None \<Rightarrow> None | Some mydict \<Rightarrow> mydict p)"

definition stored_by :: "('s, 'f) outcome \<Rightarrow> string \<Rightarrow> string \<Rightarrow> regval option" where
  "stored_by r cmd p = (case r of Inl e \<Rightarrow> None | Inr (self, a) \<Rightarrow> stored self cmd p)"

definition stored_after ::
  "('s, 'f) action list \<times> (error + ('s, 'f) session) \<Rightarrow> string \<Rightarrow> string \<Rightarrow> regval option" where
  "stored_after r cmd p = (case snd r of Inl e \<Rightarrow> None | Inr self \<Rightarrow> stored self cmd p)"

section \<open>Concrete inputs\<close>

text \<open>
  Inputs at which the properties below are evaluated: a state table with some stable and
  some other states, decimal literals read as reals for \<open>float\<close>, and the state of a freshly
  constructed parser over that table.
\<close>

definition example_jtagstates :: "(string \<times> nat) list" where
  "example_jtagstates =
     [(''reset'', 0), (''idle'', 1), (''shift_dr'', 4), (''pause_dr'', 6),
      (''shift_ir'', 11), (''pause_ir'', 13)]"

definition example_float :: "string \<Rightarrow> real option" where
  "example_float s =
     (if s = ''1.5'' then Some (3 / 2) else if s = ''2.0'' then Some 2
      else if s = ''5'' then Some 5 else None)"

definition example_int_eq_float :: "int \<Rightarrow> real \<Rightarrow> bool" where
  "example_int_eq_float n x = (of_int n = x)"

definition example_session :: "(nat, real) session" where
  "example_session =
     \<lparr>sticky = init_sticky, FREQUENCY = None, ENDDR = 1, ENDIR = 1, RUNSTATE = 1, ENDSTATE = 1\<rparr>"

section \<open>Properties\<close>

subsection \<open>Auxiliary facts\<close>

lemma stable_simps:
  "(s \<in> stable) = (s = ''IRPAUSE'' \<or> s = ''DRPAUSE'' \<or> s = ''RESET'' \<or> s = ''IDLE'')"
  by (auto simp: stable_def)

lemmas py_int_defs = py_digits_def is_digit_def digits_val_def digit_val_def

lemmas upper_defs = upper_def to_upper_def char_of_def bit_Suc_0_iff

lemma example_init: "init (states_of example_jtagstates) = Inr example_session"
  by (simp add: init_def example_session_def states_of_def example_jtagstates_def state_key_def
      upper_defs)

lemma example_states:
  "states_of example_jtagstates ''RESET'' = Some 0"
  "states_of example_jtagstates ''IDLE'' = Some 1"
  "states_of example_jtagstates ''DRSHIFT'' = Some 4"
  "states_of example_jtagstates ''DRPAUSE'' = Some 6"
  "states_of example_jtagstates ''IRSHIFT'' = Some 11"
  "states_of example_jtagstates ''IRPAUSE'' = Some 13"
  by (simp_all add: states_of_def example_jtagstates_def state_key_def upper_defs)

subsection \<open>TRST\<close>

text \<open>
  Claim C3. A TRST command with one parameter from ON, OFF, Z, ABSENT yields a \<open>Trst\<close> record
  with the mapped value, and any other parameter should fail with an \<open>SvfError\<close>. The code
  looks the parameter up with \<open>valid_trst[param]\<close>, so for \<open>TRST BOGUS;\<close> it raises \<open>KeyError\<close>,
  which is no \<open>SvfError\<close> and which the driver does not catch; \<open>TRST OFF;\<close> yields value 0.
\<close>

theorem trst_unknown_value_raises_KeyError:
  "cmd_trst self ''TRST'' [Str ''BOGUS''] linenum = Inl (KeyError ''BOGUS'')
   \<and> parse_cmd states float int_eq_float self ([Str ''TRST'', Str ''BOGUS''], linenum)
       = Inl (KeyError ''BOGUS'')
   \<and> \<not> is_SvfError (KeyError ''BOGUS'')
   \<and> cmd_trst self ''TRST'' [Str ''OFF''] linenum = Inr (self, Some (Trst 0 linenum))"
  by (simp add: cmd_trst_def parse_cmd_def valid_trst_def)

lemma trst_valid_values:
  "cmd_trst self cmd [Str ''ON''] linenum = Inr (self, Some (Trst 1 linenum))"
  "cmd_trst self cmd [Str ''OFF''] linenum = Inr (self, Some (Trst 0 linenum))"
  "cmd_trst self cmd [Str ''Z''] linenum = Inr (self, Some (Trst 2 linenum))"
  "cmd_trst self cmd [Str ''ABSENT''] linenum = Inr (self, Some (Trst 3 linenum))"
  by (simp_all add: cmd_trst_def valid_trst_def)

lemma trst_unknown_value:
  "valid_trst (text_of param) = None \<Longrightarrow>
   cmd_trst self cmd [param] linenum = Inl (KeyError (text_of param))"
  by (simp add: cmd_trst_def)

subsection \<open>RUNTEST\<close>

text \<open>
  Claim C1. \<open>RUNTEST 100 TCK ENDSTATE IDLE;\<close> should yield a \<open>RunTest\<close> record with 100 clocks
  and end state IDLE. The code raises \<open>NameError\<close> at the state name: the branch reads
  \<open>states[param]\<close>, and \<open>states\<close> is not a name of the method or of the module. No record is
  yielded.
\<close>

theorem runtest_endstate_raises_NameError:
  "cmd_runtest float int_eq_float self ''RUNTEST''
       [Str ''100'', Str ''TCK'', Str ''ENDSTATE'', Str ''IDLE''] linenum
     = Inl (NameError ''states'')
   \<and> parse_cmd states float int_eq_float self
        ([Str ''RUNTEST'', Str ''100'', Str ''TCK'', Str ''ENDSTATE'', Str ''IDLE''], linenum)
     = Inl (NameError ''states'')"
  by (simp add: parse_cmd_def cmd_runtest_def runtest_step_def runtest_init_def py_ne_def
      timing_def stable_simps py_int_defs Let_def)

text \<open>
  More generally no state name at a clause position is ever accepted: the step either raises
  \<open>NameError\<close> or an \<open>SvfError\<close>.
\<close>

lemma runtest_state_name_fails:
  "prev_num vars = None \<Longrightarrow> text_of param \<in> stable \<Longrightarrow>
   isl (runtest_step float int_eq_float vars param)"
  by (simp add: runtest_step_def Let_def)

text \<open>
  Claim C5. A bare number in RUNTEST must be followed by TCK, SCK or SEC, and a number that
  ends the command should make it fail. The code checks the follow-up only when a next token
  arrives: \<open>RUNTEST 100;\<close> is accepted and yields a record with no clock count and no seconds,
  and in \<open>RUNTEST 100 TCK 5;\<close> the trailing 5 is dropped.
\<close>

theorem runtest_trailing_number_accepted:
  "cmd_runtest float int_eq_float self ''RUNTEST'' [Str ''100''] linenum
     = Inr (self, Some (RunTest None False [None, None] (RUNSTATE self) (ENDSTATE self) linenum))
   \<and> cmd_runtest float int_eq_float self ''RUNTEST'' [Str ''100'', Str ''TCK'', Str ''5''] linenum
     = Inr (self, Some (RunTest (Some 100) False [None, None] (RUNSTATE self) (ENDSTATE self) linenum))"
  by (simp add: cmd_runtest_def runtest_step_def runtest_init_def py_ne_def
      timing_def stable_simps py_int_defs Let_def)

text \<open>The part of C5 that the code does keep: a pending token followed by anything but a unit fails.\<close>

lemma runtest_number_then_other_token_fails:
  \<open>prev_num vars = Some n \<Longrightarrow> timing (text_of param) = None \<Longrightarrow>
   runtest_step float int_eq_float vars param
     = Inl (SvfError [F ''Unexpected clause "%s %s"'' [S (text_of n), S (text_of param)]])\<close>
  by (simp add: runtest_step_def Let_def)

subsection \<open>ENDIR and ENDDR\<close>

text \<open>
  Claim C6. ENDIR and ENDDR take exactly one stable state; zero parameters should fail with
  an \<open>SvfError\<close> like the other malformed shapes. With no parameter the loop body never runs
  and the code then reads the unbound loop variable \<open>state\<close>: the exception is
  \<open>UnboundLocalError\<close>, no \<open>SvfError\<close>.
\<close>

theorem enddrir_no_parameter_raises_UnboundLocalError:
  "cmd_enddrir states self cmd [] linenum = Inl (UnboundLocalError ''state'')
   \<and> parse_cmd states float int_eq_float self ([Str ''ENDIR''], linenum)
       = Inl (UnboundLocalError ''state'')
   \<and> parse_cmd states float int_eq_float self ([Str ''ENDDR''], linenum)
       = Inl (UnboundLocalError ''state'')
   \<and> \<not> is_SvfError (UnboundLocalError ''state'')"
  by (simp add: cmd_enddrir_def parse_cmd_def)

text \<open>The other cases of C6 hold on the code.\<close>

lemma enddrir_one_stable_parameter:
  "text_of state \<in> stable \<Longrightarrow> states (text_of state) = Some s \<Longrightarrow>
   cmd_enddrir states self ''ENDIR'' [state] linenum = Inr (self\<lparr>ENDIR := s\<rparr>, None)
   \<and> cmd_enddrir states self ''ENDDR'' [state] linenum = Inr (self\<lparr>ENDDR := s\<rparr>, None)"
  by (simp add: cmd_enddrir_def setattr_def)

lemma enddrir_more_parameters:
  "rest \<noteq> [] \<Longrightarrow> \<exists>args. cmd_enddrir states self cmd (state # rest) linenum = Inl (SvfError args)"
  by (simp add: cmd_enddrir_def)

lemma enddrir_unrecognised:
  "text_of state \<notin> stable \<Longrightarrow>
   \<exists>args. cmd_enddrir states self cmd (state # rest) linenum = Inl (SvfError args)"
  by (simp add: cmd_enddrir_def)

subsection \<open>STATE\<close>

lemma state_loop_resolved:
  "list_all2 (\<lambda>p s. states (text_of p) = Some s) ps ss \<Longrightarrow>
   state_loop states acc ps = Inr (acc @ ss)"
  by (induction ps ss arbitrary: acc rule: list_all2_induct) simp_all

lemma state_loop_unknown:
  "\<exists>p\<in>set ps. states (text_of p) = None \<Longrightarrow>
   \<exists>a. state_loop states acc ps = Inl (SvfError [F ''Invalid state %s'' [S a]])"
proof (induction ps arbitrary: acc)
  case Nil
  then show ?case by simp
next
  case (Cons p ps)
  show ?case
  proof (cases "states (text_of p)")
    case None
    then show ?thesis by simp
  next
    case (Some s)
    with Cons.prems have "\<exists>p\<in>set ps. states (text_of p) = None" by auto
    from Cons.IH [OF this] Some show ?thesis by simp
  qed
qed

lemma split_pieces_no_sep: "w \<in> set (split sep s) \<Longrightarrow> sep \<notin> set w"
proof (induction s arbitrary: w)
  case Nil
  then show ?case by simp
next
  case (Cons c s)
  then show ?case
    by (cases "split sep s") (auto split: if_splits)
qed

lemma to_upper_underscore: "to_upper c = CHR ''_'' \<Longrightarrow> c = CHR ''_''"
proof (rule ccontr)
  assume u: "to_upper c = CHR ''_''" and n: "c \<noteq> CHR ''_''"
  let ?n = "of_char c :: nat"
  from u n have r: "97 \<le> ?n" "?n \<le> 122" and e: "char_of (?n - 32) = CHR ''_''"
    by (auto simp: to_upper_def Let_def split: if_splits)
  from e have "(of_char (char_of (?n - 32) :: char) :: nat) = of_char CHR ''_''" by simp
  then have "(?n - 32) mod 256 = 95" by simp
  with r show False by simp
qed

lemma state_key_no_underscore: "CHR ''_'' \<notin> set (state_key x)"
proof
  assume "CHR ''_'' \<in> set (state_key x)"
  then have "CHR ''_'' \<in> to_upper ` set (concat (rev (split CHR ''_'' x)))"
    by (simp add: state_key_def upper_def)
  then obtain c where c: "c \<in> set (concat (rev (split CHR ''_'' x)))" and u: "CHR ''_'' = to_upper c"
    by (rule imageE)
  from u [symmetric] have "c = CHR ''_''" by (rule to_upper_underscore)
  with c show False by (auto dest: split_pieces_no_sep)
qed

lemma fold_states_keys:
  "fold (\<lambda>(x, y) states. states(state_key x \<mapsto> y)) js m k = Some v \<Longrightarrow>
   m k = Some v \<or> k \<in> state_key ` fst ` set js"
proof (induction js arbitrary: m)
  case Nil
  then show ?case by simp
next
  case (Cons j js)
  obtain x y where j: "j = (x, y)" by (cases j)
  from Cons.prems have "fold (\<lambda>(x, y) states. states(state_key x \<mapsto> y)) js (m(state_key x \<mapsto> y)) k = Some v"
    by (simp only: j List.fold_simps comp_apply prod.case)
  from Cons.IH [OF this] show ?case
    by (auto simp: j split: if_splits)
qed

lemma states_of_no_underscore: "CHR ''_'' \<in> set k \<Longrightarrow> states_of jtagstates k = None"
proof (rule ccontr)
  assume k: "CHR ''_'' \<in> set k" and "states_of jtagstates k \<noteq> None"
  then obtain v where "states_of jtagstates k = Some v" by auto
  then have "k \<in> state_key ` fst ` set jtagstates"
    unfolding states_of_def by (auto dest: fold_states_keys)
  with k show False by (auto simp: state_key_no_underscore)
qed

text \<open>
  Claim C8. In a STATE command with at least one parameter every name is looked up in the
  state table and an unknown name fails; only the last name has to be stable, the earlier
  ones are accepted as they are. So \<open>STATE RESET IDLE;\<close> succeeds, and
  \<open>STATE IDLE RESET_FOO;\<close> fails for every table, because no key of the table holds an
  underscore (the tokenizer would split \<open>RESET_FOO\<close> at the underscore; both readings fail).
\<close>

theorem state_only_last_checked_stable:
  "(iterparams \<noteq> [] \<and> (\<exists>p\<in>set iterparams. states (text_of p) = None) \<longrightarrow>
      (\<exists>a. cmd_state states self cmd iterparams linenum = Inl (SvfError [F ''Invalid state %s'' [S a]])))
   \<and> (iterparams \<noteq> [] \<and> list_all2 (\<lambda>p s. states (text_of p) = Some s) iterparams statelist
        \<and> text_of (last iterparams) \<in> stable \<longrightarrow>
      cmd_state states self cmd iterparams linenum = Inr (self, Some (State statelist linenum)))
   \<and> (iterparams \<noteq> [] \<and> list_all2 (\<lambda>p s. states (text_of p) = Some s) iterparams statelist
        \<and> text_of (last iterparams) \<notin> stable \<longrightarrow>
      cmd_state states self cmd iterparams linenum
        = Inl (SvfError [F ''%s is not a stable state'' [S (text_of (last iterparams))]]))
   \<and> (states ''RESET'' = Some r \<and> states ''IDLE'' = Some i \<longrightarrow>
      cmd_state states self cmd [Str ''RESET'', Str ''IDLE''] linenum
        = Inr (self, Some (State [r, i] linenum)))
   \<and> (\<exists>a. cmd_state (states_of jtagstates) self cmd [Str ''IDLE'', Str ''RESET_FOO''] linenum
        = Inl (SvfError [F ''Invalid state %s'' [S a]]))
   \<and> (\<exists>a. cmd_state (states_of jtagstates) self cmd
              [Str ''IDLE'', Str ''RESET'', Str ''_'', Str ''FOO''] linenum
        = Inl (SvfError [F ''Invalid state %s'' [S a]]))"
proof (intro conjI impI)
  assume "iterparams \<noteq> [] \<and> (\<exists>p\<in>set iterparams. states (text_of p) = None)"
  then have "\<exists>a. state_loop states [] iterparams = Inl (SvfError [F ''Invalid state %s'' [S a]])"
    by (intro state_loop_unknown) simp
  then show "\<exists>a. cmd_state states self cmd iterparams linenum = Inl (SvfError [F ''Invalid state %s'' [S a]])"
    by (auto simp: cmd_state_def)
next
  assume "iterparams \<noteq> [] \<and> list_all2 (\<lambda>p s. states (text_of p) = Some s) iterparams statelist
        \<and> text_of (last iterparams) \<in> stable"
  then show "cmd_state states self cmd iterparams linenum = Inr (self, Some (State statelist linenum))"
    using state_loop_resolved [of states iterparams statelist "[]"] by (simp add: cmd_state_def)
next
  assume "iterparams \<noteq> [] \<and> list_all2 (\<lambda>p s. states (text_of p) = Some s) iterparams statelist
        \<and> text_of (last iterparams) \<notin> stable"
  then show "cmd_state states self cmd iterparams linenum
        = Inl (SvfError [F ''%s is not a stable state'' [S (text_of (last iterparams))]])"
    using state_loop_resolved [of states iterparams statelist "[]"] by (simp add: cmd_state_def)
next
  assume "states ''RESET'' = Some r \<and> states ''IDLE'' = Some i"
  then show "cmd_state states self cmd [Str ''RESET'', Str ''IDLE''] linenum
        = Inr (self, Some (State [r, i] linenum))"
    by (simp add: cmd_state_def stable_def)
next
  have "states_of jtagstates ''RESET_FOO'' = None"
    by (rule states_of_no_underscore) simp
  then have "\<exists>a. state_loop (states_of jtagstates) [] [Str ''IDLE'', Str ''RESET_FOO'']
      = Inl (SvfError [F ''Invalid state %s'' [S a]])"
    by (intro state_loop_unknown) simp
  then show "\<exists>a. cmd_state (states_of jtagstates) self cmd [Str ''IDLE'', Str ''RESET_FOO''] linenum
        = Inl (SvfError [F ''Invalid state %s'' [S a]])"
    by (auto simp: cmd_state_def)
next
  have "states_of jtagstates ''_'' = None"
    by (rule states_of_no_underscore) simp
  then have "\<exists>a. state_loop (states_of jtagstates) [] [Str ''IDLE'', Str ''RESET'', Str ''_'', Str ''FOO'']
      = Inl (SvfError [F ''Invalid state %s'' [S a]])"
    by (intro state_loop_unknown) simp
  then show "\<exists>a. cmd_state (states_of jtagstates) self cmd
              [Str ''IDLE'', Str ''RESET'', Str ''_'', Str ''FOO''] linenum
        = Inl (SvfError [F ''Invalid state %s'' [S a]])"
    by (auto simp: cmd_state_def)
qed

text \<open>A non-stable state before a stable last one is accepted; a non-stable last one is not.\<close>

theorem state_only_last_checked_stable_witness:
  "cmd_state (states_of example_jtagstates) example_session ''STATE'' [Str ''DRSHIFT'', Str ''IDLE''] 7
     = Inr (example_session, Some (State [4, 1] 7))
   \<and> ''DRSHIFT'' \<notin> stable
   \<and> cmd_state (states_of example_jtagstates) example_session ''STATE'' [Str ''RESET'', Str ''IDLE''] 7
     = Inr (example_session, Some (State [0, 1] 7))
   \<and> cmd_state (states_of example_jtagstates) example_session ''STATE'' [Str ''IDLE'', Str ''DRSHIFT''] 7
     = Inl (SvfError [F ''%s is not a stable state'' [S ''DRSHIFT'']])
   \<and> cmd_state (states_of example_jtagstates) example_session ''STATE'' [Str ''FOO'', Str ''IDLE''] 7
     = Inl (SvfError [F ''Invalid state %s'' [S ''FOO'']])"
  using state_only_last_checked_stable [of "[Str ''DRSHIFT'', Str ''IDLE'']" "states_of example_jtagstates"
      example_session "''STATE''" 7 "[4, 1]" 0 1 example_jtagstates]
    state_only_last_checked_stable [of "[Str ''IDLE'', Str ''DRSHIFT'']" "states_of example_jtagstates"
      example_session "''STATE''" 7 "[1, 4]" 0 1 example_jtagstates]
  by (simp add: example_states stable_simps cmd_state_def states_of_def example_jtagstates_def state_key_def upper_defs)

subsection \<open>Hex data of a register parameter\<close>

lemma unhexlify_non_hex: "\<exists>c\<in>set s. hexval c = None \<Longrightarrow> unhexlify s = None"
proof (induction s rule: unhexlify.induct)
  case (3 a b rest)
  show ?case
  proof (cases "hexval a")
    case None
    then show ?thesis by simp
  next
    case A: (Some x)
    show ?thesis
    proof (cases "hexval b")
      case None
      with A show ?thesis by simp
    next
      case B: (Some y)
      from A B "3.prems" have "\<exists>c\<in>set rest. hexval c = None" by auto
      with "3.IH" A B have "unhexlify rest = None" by simp
      with A B show ?thesis by simp
    qed
  qed
qed simp_all

lemma hexval_zero: "hexval CHR ''0'' = Some 0"
  by (simp add: hexval_def)

lemma hexdata_eq:
  "hexdata data = unhexlify (if odd (length (concat data)) then CHR ''0'' # concat data else concat data)"
  by (simp add: hexdata_def length_concat and_one_eq mod_2_eq_odd)

lemma hexdata_non_hex: "\<exists>c\<in>set (concat data). hexval c = None \<Longrightarrow> hexdata data = None"
  unfolding hexdata_eq by (rule unhexlify_non_hex) auto

lemma reg_params_non_hex:
  "even (length pre) \<Longrightarrow> hexdata data = None \<Longrightarrow>
   isl (reg_params len mydict (pre @ param # AnnotatedString data # rest))"
proof (induction pre arbitrary: mydict rule: induct_list012)
  case 1
  then show ?case by simp
next
  case (2 x)
  then show ?case by simp
next
  case (3 x y zs)
  from "3.prems" have "even (length zs)" by simp
  from "3.IH"(1) [OF this "3.prems"(2)] show ?case
    by (cases y) (simp_all split: option.splits)
qed

subsection \<open>The command assembler\<close>

lemma getcmds_sub_no_close:
  "\<forall>tl\<in>set tokens. \<not> py_in (fst tl) '');'' \<Longrightarrow>
   getcmds_sub cmd cmdlinenum subcmd tokens = (if cmd \<noteq> [] then [(cmd, cmdlinenum)] else [], None)"
proof (induction tokens arbitrary: subcmd)
  case Nil
  then show ?case by simp
next
  case (Cons tl tokens)
  obtain t l where tl: "tl = (t, l)" by (cases tl)
  from Cons.prems have "\<not> py_in t '');''" and "\<forall>tl\<in>set tokens. \<not> py_in (fst tl) '');''"
    by (simp_all add: tl)
  with Cons.IH show ?case by (simp add: tl)
qed

text \<open>
  Claim C10. When the tokens end inside a block that was opened with \<open>(\<close> and never closed,
  no error is raised: the sub-tokens collected so far are dropped, and the pending buffer,
  if it is not empty, is yielded as the last command without a token for the block, just as
  if the input had ended before the parenthesis.
\<close>

theorem getcmds_unclosed_block_at_end:
  "\<forall>tl\<in>set subtokens. \<not> py_in (fst tl) '');'' \<Longrightarrow>
   getcmds_loop cmd cmdlinenum ((''('', linenum) # subtokens)
     = (if cmd \<noteq> [] then [(cmd, cmdlinenum)] else [], None)
   \<and> getcmds_loop cmd cmdlinenum ((''('', linenum) # subtokens) = getcmds_loop cmd cmdlinenum []"
  by (simp add: getcmds_sub_no_close)

theorem getcmds_unclosed_block_at_end_witness:
  "getcmds_loop [Str ''SIR'', Str ''8'', Str ''TDI''] 1 [(''('', 2), (''ff'', 2), (''0a'', 3)]
     = ([([Str ''SIR'', Str ''8'', Str ''TDI''], 1)], None)
   \<and> getcmds [(''sir'', 1), (''8'', 1), (''tdi'', 1), (''('', 2), (''ff'', 2), (''0a'', 3)]
     = ([([Str ''SIR'', Str ''8'', Str ''TDI''], 1)], None)
   \<and> getcmds [(''sir'', 1), (''8'', 1), ('';'', 1), (''('', 2), (''ff'', 2)]
     = ([([Str ''SIR'', Str ''8''], 1)], None)"
  using getcmds_unclosed_block_at_end [of "[(''ff'', 2), (''0a'', 3)]" "[Str ''SIR'', Str ''8'', Str ''TDI'']" 1 2]
    getcmds_unclosed_block_at_end [of "[(''ff'', 2)]" "[]" 0 2]
  by (simp add: getcmds_def upper_defs)

subsection \<open>The sticky store\<close>

lemma invalidate_effect:
  "\<forall>p\<in>set ps. \<exists>l b. d p = Some (Tuple l b) \<Longrightarrow>
   \<exists>d'. invalidate len ps d = Inr d' \<and>
     (\<forall>k. k \<notin> set ps \<longrightarrow> d' k = d k) \<and>
     (\<forall>p\<in>set ps. \<forall>l b. d p = Some (Tuple l b) \<longrightarrow>
        d' p = Some (if l \<noteq> 0 \<and> l \<noteq> len then nodata else Tuple l b))"
proof (induction ps arbitrary: d)
  case Nil
  then show ?case by simp
next
  case (Cons p ps)
  from Cons.prems obtain pl pb where p: "d p = Some (Tuple pl pb)" by auto
  define d1 where "d1 = (if pl \<noteq> 0 \<and> pl \<noteq> len then d(p \<mapsto> nodata) else d)"
  have step: "invalidate len (p # ps) d = invalidate len ps d1"
    by (simp add: p d1_def)
  from Cons.prems have "\<forall>q\<in>set ps. \<exists>l b. d1 q = Some (Tuple l b)"
    by (auto simp: d1_def nodata_def)
  from Cons.IH [OF this] obtain d' where d': "invalidate len ps d1 = Inr d'"
    and out: "\<forall>k. k \<notin> set ps \<longrightarrow> d' k = d1 k"
    and ins: "\<forall>q\<in>set ps. \<forall>l b. d1 q = Some (Tuple l b) \<longrightarrow>
        d' q = Some (if l \<noteq> 0 \<and> l \<noteq> len then nodata else Tuple l b)"
    by blast
  have "\<forall>k. k \<notin> set (p # ps) \<longrightarrow> d' k = d k"
    using out by (simp add: d1_def)
  moreover have "\<forall>q\<in>set (p # ps). \<forall>l b. d q = Some (Tuple l b) \<longrightarrow>
        d' q = Some (if l \<noteq> 0 \<and> l \<noteq> len then nodata else Tuple l b)"
  proof (intro ballI allI impI)
    fix q l b
    assume q: "q \<in> set (p # ps)" and dq: "d q = Some (Tuple l b)"
    show "d' q = Some (if l \<noteq> 0 \<and> l \<noteq> len then nodata else Tuple l b)"
    proof (cases "q \<in> set ps")
      case False
      with q have "q = p" by simp
      with False out p dq show ?thesis by (simp add: d1_def)
    next
      case True
      show ?thesis
      proof (cases "q = p \<and> pl \<noteq> 0 \<and> pl \<noteq> len")
        case True
        then have "d1 q = Some (Tuple 0 [])" by (simp add: d1_def nodata_def)
        with ins \<open>q \<in> set ps\<close> have "d' q = Some (Tuple 0 [])" by (auto simp: nodata_def)
        with True p dq show ?thesis by (simp add: nodata_def)
      next
        case False
        then have "d1 q = d q" by (auto simp: d1_def)
        with ins \<open>q \<in> set ps\<close> dq show ?thesis by auto
      qed
    qed
  qed
  ultimately show ?case using step d' by simp
qed

lemma reg_params_other_keys:
  "reg_params len d ps = Inr d' \<Longrightarrow> k \<notin> text_of ` set ps \<Longrightarrow> d' k = d k"
proof (induction len d ps rule: reg_params.induct)
  case (1 len mydict)
  then show ?case by simp
next
  case (2 len mydict param rest)
  from "2.prems" show ?case
    by (auto split: if_splits list.splits token.splits option.splits dest!: "2.IH" [rotated -1])
qed

lemma paramtypes_simps: "(p \<in> set paramtypes) = (p = ''MASK'' \<or> p = ''SMASK'' \<or> p = ''TDI'' \<or> p = ''TDO'')"
  by (auto simp: paramtypes_def)

lemma cmd_reg_effect:
  assumes st: "sticky self cmd = Some mydict"
    and wf: "\<forall>p\<in>set paramtypes. \<exists>l b. mydict p = Some (Tuple l b)"
    and ok: "cmd_reg self cmd (n # rest) linenum = Inr (self1, x)"
  shows "\<exists>len mydict1. py_int (text_of n) = Some len \<and> sticky self1 cmd = Some mydict1
     \<and> (\<forall>p\<in>set paramtypes. p \<notin> text_of ` set rest \<longrightarrow>
          (\<forall>l b. mydict p = Some (Tuple l b) \<longrightarrow>
             mydict1 p = Some (if l \<noteq> 0 \<and> l \<noteq> len then nodata else Tuple l b)))"
proof -
  from ok st obtain len where len: "py_int (text_of n) = Some len"
    by (auto simp: cmd_reg_def split: option.splits)
  let ?d = "mydict(''length'' \<mapsto> IntV len)"
  from wf have "\<forall>p\<in>set paramtypes. \<exists>l b. ?d p = Some (Tuple l b)"
    by (auto simp: paramtypes_simps)
  from invalidate_effect [OF this, of len] obtain d1 where d1: "invalidate len paramtypes ?d = Inr d1"
    and ins: "\<forall>p\<in>set paramtypes. \<forall>l b. ?d p = Some (Tuple l b) \<longrightarrow>
        d1 p = Some (if l \<noteq> 0 \<and> l \<noteq> len then nodata else Tuple l b)"
    by blast
  from ok st len d1 obtain d2 where d2: "reg_params len d1 rest = Inr d2"
    and s1: "self1 = self\<lparr>sticky := (sticky self)(cmd \<mapsto> d2)\<rparr>"
    by (auto simp: cmd_reg_def split: sum.splits)
  have "\<forall>p\<in>set paramtypes. p \<notin> text_of ` set rest \<longrightarrow>
          (\<forall>l b. mydict p = Some (Tuple l b) \<longrightarrow>
             d2 p = Some (if l \<noteq> 0 \<and> l \<noteq> len then nodata else Tuple l b))"
  proof (intro ballI impI allI)
    fix p l b
    assume p: "p \<in> set paramtypes" "p \<notin> text_of ` set rest" and m: "mydict p = Some (Tuple l b)"
    from p(1) have "p \<noteq> ''length''" by (auto simp: paramtypes_simps)
    with m have "?d p = Some (Tuple l b)" by simp
    with ins p(1) have "d1 p = Some (if l \<noteq> 0 \<and> l \<noteq> len then nodata else Tuple l b)" by blast
    with reg_params_other_keys [OF d2 p(2)]
    show "d2 p = Some (if l \<noteq> 0 \<and> l \<noteq> len then nodata else Tuple l b)" by simp
  qed
  with len s1 show ?thesis by simp
qed

lemma cmd_shift_reg:
  "cmd_shift self cmd iterparams linenum = Inr (self1, a) \<Longrightarrow>
   cmd_reg self cmd iterparams linenum = Inr (self1, None)"
  by (auto simp: cmd_shift_def cmd_reg_def Let_def split: sum.splits if_splits option.splits list.splits)

text \<open>
  Every parameter of a register holds a tuple in a new parser, and the register commands
  keep it so; a command that gives the length alone cannot fail once the length parses.
\<close>

lemma init_reg_tuples: "\<forall>p\<in>set paramtypes. \<exists>l b. init_reg p = Some (Tuple l b)"
  by (simp add: init_reg_def paramtypes_def nodata_def)

lemma reg_params_tuples:
  "reg_params len d ps = Inr d' \<Longrightarrow> \<forall>p\<in>set paramtypes. \<exists>l b. d p = Some (Tuple l b) \<Longrightarrow>
   \<forall>p\<in>set paramtypes. \<exists>l b. d' p = Some (Tuple l b)"
proof (induction len d ps rule: reg_params.induct)
  case (1 len mydict)
  then show ?case by simp
next
  case (2 len mydict param rest)
  from "2.prems"(1) obtain vals bytes rest' where rest: "rest = AnnotatedString vals # rest'"
    and some: "mydict (text_of param) \<noteq> None" and hex: "hexdata vals = Some bytes"
    and rec: "reg_params len (mydict(text_of param \<mapsto> Tuple len bytes)) rest' = Inr d'"
    by (auto split: if_splits list.splits token.splits option.splits)
  from "2.prems"(2) have "\<forall>p\<in>set paramtypes. \<exists>l b. (mydict(text_of param \<mapsto> Tuple len bytes)) p = Some (Tuple l b)"
    by auto
  with "2.IH" [OF _ rest _ _ hex rec] some rest show ?case
    by (simp add: hexdata_text_def)
qed

lemma cmd_reg_tuples:
  assumes ok: "cmd_reg self cmd iterparams linenum = Inr (self1, x)"
    and st: "sticky self cmd = Some mydict"
    and wf: "\<forall>p\<in>set paramtypes. \<exists>l b. mydict p = Some (Tuple l b)"
  shows "\<exists>mydict1. sticky self1 cmd = Some mydict1
    \<and> (\<forall>p\<in>set paramtypes. \<exists>l b. mydict1 p = Some (Tuple l b))"
proof -
  from ok st obtain n rest len where ps: "iterparams = n # rest" and len: "py_int (text_of n) = Some len"
    by (auto simp: cmd_reg_def split: option.splits list.splits)
  let ?d = "mydict(''length'' \<mapsto> IntV len)"
  from wf have wf0: "\<forall>p\<in>set paramtypes. \<exists>l b. ?d p = Some (Tuple l b)"
    by (auto simp: paramtypes_simps)
  from invalidate_effect [OF this, of len] obtain d1 where d1: "invalidate len paramtypes ?d = Inr d1"
    and ins: "\<forall>p\<in>set paramtypes. \<forall>l b. ?d p = Some (Tuple l b) \<longrightarrow>
        d1 p = Some (if l \<noteq> 0 \<and> l \<noteq> len then nodata else Tuple l b)"
    by blast
  have wf1: "\<forall>p\<in>set paramtypes. \<exists>l b. d1 p = Some (Tuple l b)"
  proof
    fix p assume p: "p \<in> set paramtypes"
    with wf0 obtain l b where "?d p = Some (Tuple l b)" by blast
    with ins p have "d1 p = Some (if l \<noteq> 0 \<and> l \<noteq> len then nodata else Tuple l b)" by blast
    then show "\<exists>l b. d1 p = Some (Tuple l b)" by (auto simp: nodata_def)
  qed
  from ok st ps len d1 obtain d2 where d2: "reg_params len d1 rest = Inr d2"
    and s1: "self1 = self\<lparr>sticky := (sticky self)(cmd \<mapsto> d2)\<rparr>"
    by (auto simp: cmd_reg_def split: sum.splits)
  from reg_params_tuples [OF d2 wf1] s1 show ?thesis by simp
qed

lemma cmd_reg_length_only_succeeds:
  assumes st: "sticky self cmd = Some mydict"
    and wf: "\<forall>p\<in>set paramtypes. \<exists>l b. mydict p = Some (Tuple l b)"
    and len: "py_int (text_of n) = Some len"
  shows "\<not> isl (cmd_reg self cmd [n] linenum)"
proof -
  from wf have "\<forall>p\<in>set paramtypes. \<exists>l b. (mydict(''length'' \<mapsto> IntV len)) p = Some (Tuple l b)"
    by (auto simp: paramtypes_simps)
  from invalidate_effect [OF this, of len] obtain d1
    where "invalidate len paramtypes (mydict(''length'' \<mapsto> IntV len)) = Inr d1"
    by blast
  with st len show ?thesis by (simp add: cmd_reg_def)
qed

lemmas eval_defs = parse_def getcmds_def parse_cmd_def cmd_shift_def cmd_reg_def getattr_def
  stored_after_def stored_def hexdata_def hexval_def init_sticky_def init_reg_def paramtypes_def nodata_def
  py_int_defs upper_defs Let_def

lemma sdr_8_then_16_with_tdi:
  "sticky self = init_sticky \<Longrightarrow>
   stored_after (parse states float int_eq_float self fname
     [(''SDR'', 1), (''8'', 1), (''TDI'', 1), (''('', 1), (''AB'', 1), ('')'', 1), ('';'', 1),
      (''SDR'', 2), (''16'', 2), (''TDI'', 2), (''('', 2), (''CDEF'', 2), ('')'', 2), ('';'', 2)])
     ''SDR'' ''TDI'' = Some (Tuple 16 [0xCD, 0xEF])"
  by (simp add: eval_defs)

lemma sdr_16_alone_keeps_tdi:
  "sticky self = init_sticky \<Longrightarrow>
   stored_after (parse states float int_eq_float self fname
     [(''SDR'', 1), (''8'', 1), (''TDI'', 1), (''('', 1), (''AB'', 1), ('')'', 1), ('';'', 1),
      (''SDR'', 2), (''16'', 2), (''TDI'', 2), (''('', 2), (''CDEF'', 2), ('')'', 2), ('';'', 2),
      (''SDR'', 3), (''16'', 3), ('';'', 3)])
     ''SDR'' ''TDI'' = Some (Tuple 16 [0xCD, 0xEF])"
  by (simp add: eval_defs)

lemma sdr_8_then_16_without_tdi:
  "sticky self = init_sticky \<Longrightarrow>
   stored_after (parse states float int_eq_float self fname
     [(''SDR'', 1), (''8'', 1), (''TDI'', 1), (''('', 1), (''AB'', 1), ('')'', 1), ('';'', 1),
      (''SDR'', 2), (''16'', 2), ('';'', 2)])
     ''SDR'' ''TDI'' = Some nodata"
  by (simp add: eval_defs)

text \<open>
  Claim C2, as the spec states it: when the length of a register is set to a new nonzero
  value, every stored parameter whose length differs from the new one is reset to (0, empty).
  The code resets only parameters whose stored length is nonzero. After \<open>SDR 0 TDI (AB);\<close>
  the parameter is stored with length 0 and one byte; \<open>SDR 8;\<close> then sets the length 8, which
  differs from 0, and the stored byte is still there.
\<close>

theorem zero_length_parameter_survives_length_change:
  "stored_after (parse (states_of example_jtagstates) example_float example_int_eq_float example_session ''f.svf''
     [(''SDR'', 1), (''0'', 1), (''TDI'', 1), (''('', 1), (''AB'', 1), ('')'', 1), ('';'', 1)])
     ''SDR'' ''TDI'' = Some (Tuple 0 [0xAB])
   \<and> (0 :: int) \<noteq> 8
   \<and> stored_after (parse (states_of example_jtagstates) example_float example_int_eq_float example_session ''f.svf''
     [(''SDR'', 1), (''0'', 1), (''TDI'', 1), (''('', 1), (''AB'', 1), ('')'', 1), ('';'', 1),
      (''SDR'', 2), (''8'', 2), ('';'', 2)])
     ''SDR'' ''length'' = Some (IntV 8)
   \<and> \<not> stored_after (parse (states_of example_jtagstates) example_float example_int_eq_float example_session ''f.svf''
     [(''SDR'', 1), (''0'', 1), (''TDI'', 1), (''('', 1), (''AB'', 1), ('')'', 1), ('';'', 1),
      (''SDR'', 2), (''8'', 2), ('';'', 2)])
     ''SDR'' ''TDI'' = Some nodata
   \<and> stored_after (parse (states_of example_jtagstates) example_float example_int_eq_float example_session ''f.svf''
     [(''SDR'', 1), (''0'', 1), (''TDI'', 1), (''('', 1), (''AB'', 1), ('')'', 1), ('';'', 1),
      (''SDR'', 2), (''8'', 2), ('';'', 2)])
     ''SDR'' ''TDI'' = Some (Tuple 0 [0xAB])"
  by (simp add: eval_defs example_session_def)

text \<open>
  Claim C2, amended. Whenever a register command sets the length, every stored parameter
  that the command does not give anew is reset to (0, empty) if its stored length is nonzero
  and differs from the new length, and is left as it is otherwise (stored length equal to the
  new length, or zero). SIR and SDR do this through the same code. So after
  \<open>SDR 8 TDI (AB); SDR 16 TDI (CDEF);\<close> the stored TDI has length 16, a following \<open>SDR 16;\<close>
  keeps it, and \<open>SDR 8 TDI (AB); SDR 16;\<close> leaves no TDI of length 8.
\<close>

theorem length_change_resets_stale_nonzero_parameters:
  "(sticky self cmd = Some mydict \<and> (\<forall>q\<in>set paramtypes. \<exists>l b. mydict q = Some (Tuple l b))
      \<and> \<not> isl (cmd_reg self cmd (n # rest) linenum)
      \<and> p \<in> set paramtypes \<and> p \<notin> text_of ` set rest \<and> mydict p = Some (Tuple l b) \<longrightarrow>
      (\<exists>len. py_int (text_of n) = Some len
         \<and> stored_by (cmd_reg self cmd (n # rest) linenum) cmd p
             = Some (if l \<noteq> 0 \<and> l \<noteq> len then nodata else Tuple l b)))
   \<and> (\<not> isl (cmd_shift self cmd iterparams linenum) \<longrightarrow>
        stored_by (cmd_shift self cmd iterparams linenum) cmd p
          = stored_by (cmd_reg self cmd iterparams linenum) cmd p)
   \<and> (sticky self = init_sticky \<longrightarrow>
        stored_after (parse states float int_eq_float self fname
          [(''SDR'', 1), (''8'', 1), (''TDI'', 1), (''('', 1), (''AB'', 1), ('')'', 1), ('';'', 1),
           (''SDR'', 2), (''16'', 2), (''TDI'', 2), (''('', 2), (''CDEF'', 2), ('')'', 2), ('';'', 2)])
          ''SDR'' ''TDI'' = Some (Tuple 16 [0xCD, 0xEF])
      \<and> stored_after (parse states float int_eq_float self fname
          [(''SDR'', 1), (''8'', 1), (''TDI'', 1), (''('', 1), (''AB'', 1), ('')'', 1), ('';'', 1),
           (''SDR'', 2), (''16'', 2), (''TDI'', 2), (''('', 2), (''CDEF'', 2), ('')'', 2), ('';'', 2),
           (''SDR'', 3), (''16'', 3), ('';'', 3)])
          ''SDR'' ''TDI'' = Some (Tuple 16 [0xCD, 0xEF])
      \<and> stored_after (parse states float int_eq_float self fname
          [(''SDR'', 1), (''8'', 1), (''TDI'', 1), (''('', 1), (''AB'', 1), ('')'', 1), ('';'', 1),
           (''SDR'', 2), (''16'', 2), ('';'', 2)])
          ''SDR'' ''TDI'' = Some nodata)"
proof (intro conjI impI)
  assume a: "sticky self cmd = Some mydict \<and> (\<forall>q\<in>set paramtypes. \<exists>l b. mydict q = Some (Tuple l b))
      \<and> \<not> isl (cmd_reg self cmd (n # rest) linenum)
      \<and> p \<in> set paramtypes \<and> p \<notin> text_of ` set rest \<and> mydict p = Some (Tuple l b)"
  then obtain self1 x where r: "cmd_reg self cmd (n # rest) linenum = Inr (self1, x)"
    by (cases "cmd_reg self cmd (n # rest) linenum") auto
  from a have st: "sticky self cmd = Some mydict"
    and wf: "\<forall>q\<in>set paramtypes. \<exists>l b. mydict q = Some (Tuple l b)" by simp_all
  from cmd_reg_effect [OF st wf r] a r
  show "\<exists>len. py_int (text_of n) = Some len
         \<and> stored_by (cmd_reg self cmd (n # rest) linenum) cmd p
             = Some (if l \<noteq> 0 \<and> l \<noteq> len then nodata else Tuple l b)"
    by (auto simp: stored_by_def stored_def)
next
  assume "\<not> isl (cmd_shift self cmd iterparams linenum)"
  then obtain self1 a where "cmd_shift self cmd iterparams linenum = Inr (self1, a)"
    by (cases "cmd_shift self cmd iterparams linenum") auto
  with cmd_shift_reg [OF this]
  show "stored_by (cmd_shift self cmd iterparams linenum) cmd p
          = stored_by (cmd_reg self cmd iterparams linenum) cmd p"
    by (simp add: stored_by_def)
next
  assume "sticky self = init_sticky"
  then show "stored_after (parse states float int_eq_float self fname
          [(''SDR'', 1), (''8'', 1), (''TDI'', 1), (''('', 1), (''AB'', 1), ('')'', 1), ('';'', 1),
           (''SDR'', 2), (''16'', 2), (''TDI'', 2), (''('', 2), (''CDEF'', 2), ('')'', 2), ('';'', 2)])
          ''SDR'' ''TDI'' = Some (Tuple 16 [0xCD, 0xEF])"
    by (rule sdr_8_then_16_with_tdi)
next
  assume "sticky self = init_sticky"
  then show "stored_after (parse states float int_eq_float self fname
          [(''SDR'', 1), (''8'', 1), (''TDI'', 1), (''('', 1), (''AB'', 1), ('')'', 1), ('';'', 1),
           (''SDR'', 2), (''16'', 2), (''TDI'', 2), (''('', 2), (''CDEF'', 2), ('')'', 2), ('';'', 2),
           (''SDR'', 3), (''16'', 3), ('';'', 3)])
          ''SDR'' ''TDI'' = Some (Tuple 16 [0xCD, 0xEF])"
    by (rule sdr_16_alone_keeps_tdi)
next
  assume "sticky self = init_sticky"
  then show "stored_after (parse states float int_eq_float self fname
          [(''SDR'', 1), (''8'', 1), (''TDI'', 1), (''('', 1), (''AB'', 1), ('')'', 1), ('';'', 1),
           (''SDR'', 2), (''16'', 2), ('';'', 2)])
          ''SDR'' ''TDI'' = Some nodata"
    by (rule sdr_8_then_16_without_tdi)
qed

theorem length_change_resets_stale_nonzero_parameters_witness:
  "stored_by (cmd_reg (example_session\<lparr>sticky := init_sticky(''HDR'' \<mapsto> init_reg(''TDI'' \<mapsto> Tuple 8 [0xAB], ''TDO'' \<mapsto> Tuple 16 [1, 2]))\<rparr>)
       ''HDR'' [Str ''16''] 5) ''HDR'' ''TDI'' = Some nodata
   \<and> stored_by (cmd_reg (example_session\<lparr>sticky := init_sticky(''HDR'' \<mapsto> init_reg(''TDI'' \<mapsto> Tuple 8 [0xAB], ''TDO'' \<mapsto> Tuple 16 [1, 2]))\<rparr>)
       ''HDR'' [Str ''16''] 5) ''HDR'' ''TDO'' = Some (Tuple 16 [1, 2])
   \<and> stored_after (parse (states_of example_jtagstates) example_float example_int_eq_float example_session ''f.svf''
          [(''SDR'', 1), (''8'', 1), (''TDI'', 1), (''('', 1), (''AB'', 1), ('')'', 1), ('';'', 1),
           (''SDR'', 2), (''16'', 2), ('';'', 2)])
          ''SDR'' ''TDI'' = Some nodata"
  using length_change_resets_stale_nonzero_parameters
      [of "example_session\<lparr>sticky := init_sticky(''HDR'' \<mapsto> init_reg(''TDI'' \<mapsto> Tuple 8 [0xAB], ''TDO'' \<mapsto> Tuple 16 [1, 2]))\<rparr>"
          "''HDR''" "init_reg(''TDI'' \<mapsto> Tuple 8 [0xAB], ''TDO'' \<mapsto> Tuple 16 [1, 2])" "Str ''16''" "[]" 5 "''TDI''" 8 "[0xAB]"
          "[Str ''16'']" "states_of example_jtagstates" example_float example_int_eq_float "''f.svf''"]
    length_change_resets_stale_nonzero_parameters
      [of "example_session\<lparr>sticky := init_sticky(''HDR'' \<mapsto> init_reg(''TDI'' \<mapsto> Tuple 8 [0xAB], ''TDO'' \<mapsto> Tuple 16 [1, 2]))\<rparr>"
          "''HDR''" "init_reg(''TDI'' \<mapsto> Tuple 8 [0xAB], ''TDO'' \<mapsto> Tuple 16 [1, 2])" "Str ''16''" "[]" 5 "''TDO''" 16 "[1, 2]"
          "[Str ''16'']" "states_of example_jtagstates" example_float example_int_eq_float "''f.svf''"]
  by (simp add: eval_defs stored_by_def example_session_def)

subsection \<open>SIR and SDR\<close>

text \<open>The six registers exist from the construction on and no command removes one.\<close>

lemma init_registers:
  "init states = Inr self \<Longrightarrow> r \<in> {''SIR'', ''SDR'', ''HIR'', ''HDR'', ''TIR'', ''TDR''} \<Longrightarrow>
   sticky self r = Some init_reg"
  by (auto simp: init_def init_sticky_def split: option.splits)

lemma parse_cmd_keeps_registers:
  "parse_cmd states float int_eq_float self c = Inr (self1, a) \<Longrightarrow> sticky self r \<noteq> None \<Longrightarrow>
   sticky self1 r \<noteq> None"
  by (cases c)
    (auto simp: parse_cmd_def Let_def cmd_enddrir_def setattr_def cmd_frequency_def cmd_reg_def
      cmd_shift_def cmd_runtest_def cmd_state_def cmd_trst_def
      split: list.splits if_splits option.splits sum.splits)

lemma cmd_reg_other_fields:
  "cmd_reg self cmd iterparams linenum = Inr (self1, x) \<Longrightarrow>
   (\<forall>r. r \<noteq> cmd \<longrightarrow> sticky self1 r = sticky self r) \<and> sticky self1 cmd \<noteq> None
   \<and> ENDIR self1 = ENDIR self \<and> ENDDR self1 = ENDDR self \<and> x = None"
  by (auto simp: cmd_reg_def split: option.splits list.splits sum.splits)

lemma cmd_shift_SIR:
  assumes "cmd_reg self ''SIR'' iterparams linenum = Inr (self1, x)"
    and "sticky self ''HIR'' \<noteq> None" and "sticky self ''TIR'' \<noteq> None"
  shows "cmd_shift self ''SIR'' iterparams linenum
     = Inr (self1, Some (Shift ''SIR'' ''HIR'' ''SIR'' ''TIR'' (ENDIR self) linenum))"
  using assms cmd_reg_other_fields [OF assms(1)]
  by (auto simp: cmd_shift_def getattr_def Let_def)

lemma cmd_shift_SDR:
  assumes "cmd_reg self ''SDR'' iterparams linenum = Inr (self1, x)"
    and "sticky self ''HDR'' \<noteq> None" and "sticky self ''TDR'' \<noteq> None"
  shows "cmd_shift self ''SDR'' iterparams linenum
     = Inr (self1, Some (Shift ''SDR'' ''HDR'' ''SDR'' ''TDR'' (ENDDR self) linenum))"
  using assms cmd_reg_other_fields [OF assms(1)]
  by (auto simp: cmd_shift_def getattr_def Let_def)

text \<open>
  Claim C4. A SIR (SDR) command whose register phase succeeds yields exactly one \<open>Shift\<close>
  record. Its header is the register HIR (HDR) and its trailer TIR (TDR), both as they were
  before the command, its data is the register SIR (SDR) in the state the register phase
  left, and its end state is the configured ENDIR (ENDDR). When the register phase fails, so
  does the command, with the same error and no record.
\<close>

theorem shift_yields_sticky_snapshot:
  "(cmd_reg self ''SIR'' iterparams linenum = Inr (self1, x)
      \<and> sticky self ''HIR'' \<noteq> None \<and> sticky self ''TIR'' \<noteq> None \<longrightarrow>
      parse_cmd states float int_eq_float self (Str ''SIR'' # iterparams, linenum)
        = cmd_shift self ''SIR'' iterparams linenum
      \<and> cmd_shift self ''SIR'' iterparams linenum
        = Inr (self1, Some (Shift ''SIR'' ''HIR'' ''SIR'' ''TIR'' (ENDIR self) linenum))
      \<and> parse_loop states float int_eq_float fname self bound [(Str ''SIR'' # iterparams, linenum)] None
        = ([Shift ''SIR'' ''HIR'' ''SIR'' ''TIR'' (ENDIR self) linenum], Inr self1)
      \<and> sticky self1 ''HIR'' = sticky self ''HIR'' \<and> sticky self1 ''TIR'' = sticky self ''TIR''
      \<and> sticky self1 ''SIR'' \<noteq> None \<and> ENDIR self1 = ENDIR self)
   \<and> (cmd_reg self ''SDR'' iterparams linenum = Inr (self1, x)
      \<and> sticky self ''HDR'' \<noteq> None \<and> sticky self ''TDR'' \<noteq> None \<longrightarrow>
      parse_cmd states float int_eq_float self (Str ''SDR'' # iterparams, linenum)
        = cmd_shift self ''SDR'' iterparams linenum
      \<and> cmd_shift self ''SDR'' iterparams linenum
        = Inr (self1, Some (Shift ''SDR'' ''HDR'' ''SDR'' ''TDR'' (ENDDR self) linenum))
      \<and> parse_loop states float int_eq_float fname self bound [(Str ''SDR'' # iterparams, linenum)] None
        = ([Shift ''SDR'' ''HDR'' ''SDR'' ''TDR'' (ENDDR self) linenum], Inr self1)
      \<and> sticky self1 ''HDR'' = sticky self ''HDR'' \<and> sticky self1 ''TDR'' = sticky self ''TDR''
      \<and> sticky self1 ''SDR'' \<noteq> None \<and> ENDDR self1 = ENDDR self)
   \<and> (cmd_reg self cmd iterparams linenum = Inl e \<longrightarrow>
        cmd_shift self cmd iterparams linenum = Inl e)"
proof (intro conjI impI)
  assume a: "cmd_reg self ''SIR'' iterparams linenum = Inr (self1, x)
      \<and> sticky self ''HIR'' \<noteq> None \<and> sticky self ''TIR'' \<noteq> None"
  then have r: "cmd_reg self ''SIR'' iterparams linenum = Inr (self1, x)" by simp
  from a have s: "cmd_shift self ''SIR'' iterparams linenum
        = Inr (self1, Some (Shift ''SIR'' ''HIR'' ''SIR'' ''TIR'' (ENDIR self) linenum))"
    by (simp add: cmd_shift_SIR)
  show d: "parse_cmd states float int_eq_float self (Str ''SIR'' # iterparams, linenum)
        = cmd_shift self ''SIR'' iterparams linenum"
    by (simp add: parse_cmd_def)
  show "cmd_shift self ''SIR'' iterparams linenum
        = Inr (self1, Some (Shift ''SIR'' ''HIR'' ''SIR'' ''TIR'' (ENDIR self) linenum))"
    by (rule s)
  show "parse_loop states float int_eq_float fname self bound [(Str ''SIR'' # iterparams, linenum)] None
        = ([Shift ''SIR'' ''HIR'' ''SIR'' ''TIR'' (ENDIR self) linenum], Inr self1)"
    by (simp add: d s)
  from cmd_reg_other_fields [OF r]
  show "sticky self1 ''HIR'' = sticky self ''HIR''" "sticky self1 ''TIR'' = sticky self ''TIR''"
    "sticky self1 ''SIR'' \<noteq> None" "ENDIR self1 = ENDIR self"
    by simp_all
next
  assume a: "cmd_reg self ''SDR'' iterparams linenum = Inr (self1, x)
      \<and> sticky self ''HDR'' \<noteq> None \<and> sticky self ''TDR'' \<noteq> None"
  then have r: "cmd_reg self ''SDR'' iterparams linenum = Inr (self1, x)" by simp
  from a have s: "cmd_shift self ''SDR'' iterparams linenum
        = Inr (self1, Some (Shift ''SDR'' ''HDR'' ''SDR'' ''TDR'' (ENDDR self) linenum))"
    by (simp add: cmd_shift_SDR)
  show d: "parse_cmd states float int_eq_float self (Str ''SDR'' # iterparams, linenum)
        = cmd_shift self ''SDR'' iterparams linenum"
    by (simp add: parse_cmd_def)
  show "cmd_shift self ''SDR'' iterparams linenum
        = Inr (self1, Some (Shift ''SDR'' ''HDR'' ''SDR'' ''TDR'' (ENDDR self) linenum))"
    by (rule s)
  show "parse_loop states float int_eq_float fname self bound [(Str ''SDR'' # iterparams, linenum)] None
        = ([Shift ''SDR'' ''HDR'' ''SDR'' ''TDR'' (ENDDR self) linenum], Inr self1)"
    by (simp add: d s)
  from cmd_reg_other_fields [OF r]
  show "sticky self1 ''HDR'' = sticky self ''HDR''" "sticky self1 ''TDR'' = sticky self ''TDR''"
    "sticky self1 ''SDR'' \<noteq> None" "ENDDR self1 = ENDDR self"
    by simp_all
next
  assume "cmd_reg self cmd iterparams linenum = Inl e"
  then show "cmd_shift self cmd iterparams linenum = Inl e"
    by (simp add: cmd_shift_def)
qed

text \<open>
  After \<open>HIR 4 TDI (A); ENDIR IRPAUSE; SIR 8 TDI (AB) TDO (CD);\<close> the one record yielded is
  the \<open>Shift\<close> of the SIR command, with the header set by the earlier HIR and the end state
  set by the earlier ENDIR.
\<close>

theorem shift_yields_sticky_snapshot_witness:
  "fst (parse (states_of example_jtagstates) example_float example_int_eq_float example_session ''f.svf''
      [(''HIR'', 1), (''4'', 1), (''TDI'', 1), (''('', 1), (''A'', 1), ('')'', 1), ('';'', 1),
       (''ENDIR'', 2), (''IRPAUSE'', 2), ('';'', 2),
       (''SIR'', 3), (''8'', 3), (''TDI'', 3), (''('', 3), (''AB'', 3), ('')'', 3),
       (''TDO'', 3), (''('', 3), (''CD'', 3), ('')'', 3), ('';'', 3)])
     = [Shift ''SIR'' ''HIR'' ''SIR'' ''TIR'' 13 3]
   \<and> map (stored_after (parse (states_of example_jtagstates) example_float example_int_eq_float example_session ''f.svf''
      [(''HIR'', 1), (''4'', 1), (''TDI'', 1), (''('', 1), (''A'', 1), ('')'', 1), ('';'', 1),
       (''ENDIR'', 2), (''IRPAUSE'', 2), ('';'', 2),
       (''SIR'', 3), (''8'', 3), (''TDI'', 3), (''('', 3), (''AB'', 3), ('')'', 3),
       (''TDO'', 3), (''('', 3), (''CD'', 3), ('')'', 3), ('';'', 3)]) ''HIR'') [''length'', ''TDI'', ''TDO'']
     = [Some (IntV 4), Some (Tuple 4 [0x0A]), Some (Tuple 0 [])]
   \<and> map (stored_after (parse (states_of example_jtagstates) example_float example_int_eq_float example_session ''f.svf''
      [(''HIR'', 1), (''4'', 1), (''TDI'', 1), (''('', 1), (''A'', 1), ('')'', 1), ('';'', 1),
       (''ENDIR'', 2), (''IRPAUSE'', 2), ('';'', 2),
       (''SIR'', 3), (''8'', 3), (''TDI'', 3), (''('', 3), (''AB'', 3), ('')'', 3),
       (''TDO'', 3), (''('', 3), (''CD'', 3), ('')'', 3), ('';'', 3)]) ''SIR'') [''length'', ''TDI'', ''TDO'']
     = [Some (IntV 8), Some (Tuple 8 [0xAB]), Some (Tuple 8 [0xCD])]
   \<and> map_sum id snd (cmd_shift example_session ''SDR'' [Str ''8'', Str ''TDI'', AnnotatedString [''AB'']] 3)
     = Inr (Some (Shift ''SDR'' ''HDR'' ''SDR'' ''TDR'' 1 3))"
  using shift_yields_sticky_snapshot
    [of example_session "[Str ''8'', Str ''TDI'', AnnotatedString [''AB'']]" 3
        "fst (projr (cmd_reg example_session ''SDR'' [Str ''8'', Str ''TDI'', AnnotatedString [''AB'']] 3))"
        None "states_of example_jtagstates" example_float example_int_eq_float "''f.svf''" None
        "''SDR''" "SvfError []"]
  by (simp add: eval_defs example_session_def cmd_enddrir_def setattr_def stable_simps example_states)

subsection \<open>RUNTEST: minimum and maximum seconds\<close>

lemmas runtest_defs = cmd_runtest_def runtest_step_def runtest_init_def py_ne_def timing_def
  stable_simps Let_def

text \<open>
  Claim C7. In RUNTEST, \<open>MAXIMUM\<close> is accepted only when the minimum seconds slot is set and
  the maximum slot is not, and the \<open>num SEC\<close> after it sets the maximum slot:
  \<open>RUNTEST 1.5 SEC MAXIMUM 2.0 SEC;\<close> yields seconds [1.5, 2.0], and
  \<open>RUNTEST MAXIMUM 2.0 SEC;\<close> fails.
\<close>

theorem runtest_maximum_needs_minimum:
  "(float ''1.5'' = Some a \<and> float ''2.0'' = Some b \<longrightarrow>
      cmd_runtest float int_eq_float self cmd
          [Str ''1.5'', Str ''SEC'', Str ''MAXIMUM'', Str ''2.0'', Str ''SEC''] linenum
        = Inr (self, Some (RunTest None False [Some a, Some b] (RUNSTATE self) (ENDSTATE self) linenum)))
   \<and> cmd_runtest float int_eq_float self cmd [Str ''MAXIMUM'', Str ''2.0'', Str ''SEC''] linenum
        = Inl (SvfError [S ''Cannot do MAXIMUM SEC without SEC''])
   \<and> (text_of param = ''MAXIMUM'' \<and> (secs vars ! 0 = None \<or> secs vars ! 1 \<noteq> None) \<longrightarrow>
        (\<exists>args. runtest_step float int_eq_float vars param = Inl (SvfError args)))
   \<and> (text_of param = ''MAXIMUM'' \<and> runtest_step float int_eq_float vars param = Inr vars1 \<longrightarrow>
        secs vars ! 0 \<noteq> None \<and> secs vars ! 1 = None \<and> do_max vars1 \<and> secs vars1 = secs vars)
   \<and> (prev_num vars = None \<and> \<not> do_end vars \<and> secs vars = [Some m, None]
        \<and> text_of num \<notin> stable \<and> text_of num \<noteq> ''MAXIMUM'' \<and> text_of num \<noteq> ''ENDSTATE''
        \<and> float (text_of num) = Some y \<longrightarrow>
        runtest_loop float int_eq_float vars (Str ''MAXIMUM'' # num # Str ''SEC'' # rest)
          = runtest_loop float int_eq_float (vars\<lparr>do_max := True, secs := [Some m, Some y]\<rparr>) rest)"
proof (intro conjI impI)
  assume "float ''1.5'' = Some a \<and> float ''2.0'' = Some b"
  then show "cmd_runtest float int_eq_float self cmd
          [Str ''1.5'', Str ''SEC'', Str ''MAXIMUM'', Str ''2.0'', Str ''SEC''] linenum
        = Inr (self, Some (RunTest None False [Some a, Some b] (RUNSTATE self) (ENDSTATE self) linenum))"
    by (simp add: runtest_defs)
next
  show "cmd_runtest float int_eq_float self cmd [Str ''MAXIMUM'', Str ''2.0'', Str ''SEC''] linenum
        = Inl (SvfError [S ''Cannot do MAXIMUM SEC without SEC''])"
    by (simp add: runtest_defs)
next
  assume "text_of param = ''MAXIMUM'' \<and> (secs vars ! 0 = None \<or> secs vars ! 1 \<noteq> None)"
  then show "\<exists>args. runtest_step float int_eq_float vars param = Inl (SvfError args)"
    by (cases "prev_num vars") (auto simp: runtest_step_def timing_def stable_simps Let_def)
next
  assume a: "text_of param = ''MAXIMUM'' \<and> runtest_step float int_eq_float vars param = Inr vars1"
  then have "prev_num vars = None"
    by (cases "prev_num vars") (auto simp: runtest_step_def timing_def Let_def)
  with a show "secs vars ! 0 \<noteq> None" "secs vars ! 1 = None" "do_max vars1" "secs vars1 = secs vars"
    by (auto simp: runtest_step_def stable_simps Let_def split: if_splits)
next
  assume a: "prev_num vars = None \<and> \<not> do_end vars \<and> secs vars = [Some m, None]
        \<and> text_of num \<notin> stable \<and> text_of num \<noteq> ''MAXIMUM'' \<and> text_of num \<noteq> ''ENDSTATE''
        \<and> float (text_of num) = Some y"
  then have 1: "runtest_step float int_eq_float vars (Str ''MAXIMUM'') = Inr (vars\<lparr>prev_num := None, do_max := True\<rparr>)"
    by (simp add: runtest_step_def stable_simps Let_def)
  from a have 2: "runtest_step float int_eq_float (vars\<lparr>prev_num := None, do_max := True\<rparr>) num
      = Inr (vars\<lparr>prev_num := Some num, do_max := True\<rparr>)"
    by (simp add: runtest_step_def Let_def)
  from a have 3: "runtest_step float int_eq_float (vars\<lparr>prev_num := Some num, do_max := True\<rparr>) (Str ''SEC'')
      = Inr (vars\<lparr>do_max := True, secs := [Some m, Some y]\<rparr>)"
    by (simp add: runtest_step_def timing_def Let_def)
  show "runtest_loop float int_eq_float vars (Str ''MAXIMUM'' # num # Str ''SEC'' # rest)
          = runtest_loop float int_eq_float (vars\<lparr>do_max := True, secs := [Some m, Some y]\<rparr>) rest"
    by (simp add: 1 2 3)
qed

theorem runtest_maximum_needs_minimum_witness:
  "cmd_runtest example_float example_int_eq_float example_session ''RUNTEST''
       [Str ''1.5'', Str ''SEC'', Str ''MAXIMUM'', Str ''2.0'', Str ''SEC''] 4
     = Inr (example_session, Some (RunTest None False [Some (3 / 2), Some 2] 1 1 4))
   \<and> cmd_runtest example_float example_int_eq_float example_session ''RUNTEST''
       [Str ''MAXIMUM'', Str ''2.0'', Str ''SEC''] 4
     = Inl (SvfError [S ''Cannot do MAXIMUM SEC without SEC''])
   \<and> cmd_runtest example_float example_int_eq_float example_session ''RUNTEST''
       [Str ''1.5'', Str ''SEC'', Str ''MAXIMUM'', Str ''2.0'', Str ''SEC'', Str ''MAXIMUM''] 4
     = Inl (SvfError [S ''Cannot do MAXIMUM SEC without SEC''])
   \<and> runtest_step example_float example_int_eq_float
        (runtest_init\<lparr>secs := [Some (3 / 2), None]\<rparr>) (Str ''MAXIMUM'')
     = Inr (runtest_init\<lparr>secs := [Some (3 / 2), None], do_max := True\<rparr>)"
  using runtest_maximum_needs_minimum [of example_float "3 / 2" 2 example_int_eq_float example_session
      "''RUNTEST''" 4 "Str ''MAXIMUM''" "runtest_init\<lparr>secs := [Some (3 / 2), Some 2], do_max := True\<rparr>"
      "runtest_init\<lparr>secs := [Some (3 / 2), None], do_max := True\<rparr>" "3 / 2" "Str ''2.0''" 2 "[]"]
    runtest_maximum_needs_minimum [of example_float "3 / 2" 2 example_int_eq_float example_session
      "''RUNTEST''" 4 "Str ''MAXIMUM''" "runtest_init\<lparr>secs := [Some (3 / 2), None]\<rparr>"
      "runtest_init\<lparr>secs := [Some (3 / 2), None], do_max := True\<rparr>" "3 / 2" "Str ''2.0''" 2 "[]"]
  by (simp add: runtest_defs example_float_def example_session_def)

subsection \<open>Hex data stored by a register command\<close>

text \<open>
  \<open>unhexlify\<close> succeeds on an even number of hex digits and then yields one byte for each
  pair of digits, the first digit of a pair being the high half.
\<close>

lemma unhexlify_all_hex:
  "\<forall>c\<in>set s. hexval c \<noteq> None \<Longrightarrow> even (length s) \<Longrightarrow>
   \<exists>bs. unhexlify s = Some bs \<and> length bs = length s div 2"
proof (induction s rule: unhexlify.induct)
  case 1
  then show ?case by simp
next
  case (2 a)
  then show ?case by simp
next
  case (3 a b rest)
  from "3.prems" obtain x y where x: "hexval a = Some x" and y: "hexval b = Some y" by auto
  from "3.prems" have "\<forall>c\<in>set rest. hexval c \<noteq> None" and "even (length rest)" by simp_all
  with "3.IH" x y obtain bs where "unhexlify rest = Some bs" and "length bs = length rest div 2"
    by blast
  with x y show ?case by simp
qed

lemma unhexlify_bytes:
  "unhexlify s = Some bs \<Longrightarrow> i < length bs \<Longrightarrow>
   bs ! i = of_nat (16 * the (hexval (s ! (2 * i))) + the (hexval (s ! (2 * i + 1))))"
proof (induction s arbitrary: bs i rule: unhexlify.induct)
  case 1
  then show ?case by simp
next
  case (2 a)
  then show ?case by simp
next
  case (3 a b rest)
  from "3.prems"(1) obtain x y bs' where x: "hexval a = Some x" and y: "hexval b = Some y"
    and r: "unhexlify rest = Some bs'" and bs: "bs = of_nat (16 * x + y) # bs'"
    by (auto split: option.splits)
  show ?case
  proof (cases i)
    case 0
    with x y bs show ?thesis by simp
  next
    case (Suc j)
    with "3.prems"(2) bs have "j < length bs'" by simp
    from "3.IH" [OF _ x y r this] x y bs Suc show ?thesis by simp
  qed
qed

lemma hexdata_all_hex:
  "\<forall>c\<in>set (concat data). hexval c \<noteq> None \<Longrightarrow>
   \<exists>bytes. hexdata data = Some bytes \<and> length bytes = (length (concat data) + 1) div 2"
proof (cases "odd (length (concat data))")
  case True
  assume h: "\<forall>c\<in>set (concat data). hexval c \<noteq> None"
  then have "\<forall>c\<in>set (CHR ''0'' # concat data). hexval c \<noteq> None"
    by (simp add: hexval_zero)
  from unhexlify_all_hex [OF this] True show ?thesis
    by (auto simp: hexdata_eq)
next
  case False
  assume h: "\<forall>c\<in>set (concat data). hexval c \<noteq> None"
  from unhexlify_all_hex [OF h] False show ?thesis
    by (auto simp: hexdata_eq)
qed

lemma reg_params_stores:
  "mydict (text_of param) \<noteq> None \<Longrightarrow> hexdata data = Some bytes \<Longrightarrow>
   reg_params len mydict (param # AnnotatedString data # rest)
     = reg_params len (mydict(text_of param \<mapsto> Tuple len bytes)) rest"
  by auto

lemma cmd_reg_stores:
  assumes st: "sticky self cmd = Some mydict"
    and wf: "\<forall>q\<in>set paramtypes. \<exists>l b. mydict q = Some (Tuple l b)"
    and len: "py_int (text_of n) = Some len"
    and p: "text_of param \<in> set paramtypes"
    and hex: "hexdata data = Some bytes"
  shows "\<not> isl (cmd_reg self cmd [n, param, AnnotatedString data] linenum)
    \<and> stored_by (cmd_reg self cmd [n, param, AnnotatedString data] linenum) cmd (text_of param)
        = Some (Tuple len bytes)"
proof -
  let ?d = "mydict(''length'' \<mapsto> IntV len)"
  from wf have wf0: "\<forall>q\<in>set paramtypes. \<exists>l b. ?d q = Some (Tuple l b)"
    by (auto simp: paramtypes_simps)
  from invalidate_effect [OF this, of len] obtain d1 where d1: "invalidate len paramtypes ?d = Inr d1"
    and ins: "\<forall>q\<in>set paramtypes. \<forall>l b. ?d q = Some (Tuple l b) \<longrightarrow>
        d1 q = Some (if l \<noteq> 0 \<and> l \<noteq> len then nodata else Tuple l b)"
    by blast
  from wf0 p obtain l b where "?d (text_of param) = Some (Tuple l b)" by blast
  with ins p have "d1 (text_of param) \<noteq> None" by auto
  with hex have "reg_params len d1 [param, AnnotatedString data]
      = Inr (d1(text_of param \<mapsto> Tuple len bytes))"
    by simp
  with st len d1 show ?thesis
    by (simp add: cmd_reg_def stored_by_def stored_def)
qed

lemma hexdata_none_iff:
  "(hexdata data = None) = (\<exists>c\<in>set (concat data). hexval c = None)"
proof
  assume n: "hexdata data = None"
  show "\<exists>c\<in>set (concat data). hexval c = None"
  proof (rule ccontr)
    assume "\<not> (\<exists>c\<in>set (concat data). hexval c = None)"
    then have "\<forall>c\<in>set (concat data). hexval c \<noteq> None" by simp
    from hexdata_all_hex [OF this] n show False by simp
  qed
next
  assume "\<exists>c\<in>set (concat data). hexval c = None"
  then show "hexdata data = None" by (rule hexdata_non_hex)
qed

lemma hexdata_bytes:
  assumes "hexdata data = Some bytes" and "i < length bytes"
  shows "length bytes = (length (concat data) + 1) div 2
    \<and> bytes ! i
        = of_nat (16 * the (hexval ((if odd (length (concat data)) then CHR ''0'' # concat data
                                      else concat data) ! (2 * i)))
                  + the (hexval ((if odd (length (concat data)) then CHR ''0'' # concat data
                                  else concat data) ! (2 * i + 1))))"
proof -
  from assms(1) have "\<forall>c\<in>set (concat data). hexval c \<noteq> None"
    using hexdata_none_iff [of data] by auto
  from hexdata_all_hex [OF this] assms(1) have "length bytes = (length (concat data) + 1) div 2"
    by auto
  moreover from assms(1)
  have "unhexlify (if odd (length (concat data)) then CHR ''0'' # concat data else concat data)
      = Some bytes"
    by (simp only: hexdata_eq)
  from unhexlify_bytes [OF this assms(2)]
  have "bytes ! i
        = of_nat (16 * the (hexval ((if odd (length (concat data)) then CHR ''0'' # concat data
                                      else concat data) ! (2 * i)))
                  + the (hexval ((if odd (length (concat data)) then CHR ''0'' # concat data
                                  else concat data) ! (2 * i + 1))))" .
  ultimately show ?thesis by simp
qed

lemma hexdata_F: "concat data = ''F'' \<Longrightarrow> hexdata data = Some [0x0F]"
  by (simp add: hexdata_eq hexval_def)

text \<open>
  Claim C9. When the sub-tokens of a block join to an odd number of hex digits, one \<open>0\<close> is
  put in front before decoding, so that \<open>F\<close> decodes to the byte 0x0F; a character that is
  no hex digit makes the register command fail, wherever the block stands among the
  (name, block) pairs. A block of hex digits only always decodes, to one byte for each pair
  of digits of the padded string, and the register command stores these bytes with the
  length of the command under the parameter's name: \<open>SDR 8 TDI (F);\<close> stores (8, 0x0F).
\<close>

theorem hexdata_pads_odd_and_rejects_non_hex:
  "hexdata data
     = unhexlify (if odd (length (concat data)) then CHR ''0'' # concat data else concat data)
   \<and> (concat data = ''F'' \<longrightarrow> hexdata data = Some [0x0F])
   \<and> ((\<exists>c\<in>set (concat data). hexval c = None) \<longrightarrow> hexdata data = None)
   \<and> ((\<exists>c\<in>set (concat data). hexval c = None) \<and> mydict (text_of param) \<noteq> None \<longrightarrow>
        reg_params len mydict (param # AnnotatedString data # rest)
          = Inl (SvfError [F ''Invalid (<hex data>) for parameter %s'' [S (text_of param)]]))
   \<and> ((\<exists>c\<in>set (concat data). hexval c = None) \<and> even (length pre) \<longrightarrow>
        isl (reg_params len mydict (pre @ param # AnnotatedString data # rest))
        \<and> isl (cmd_reg self cmd (n # pre @ param # AnnotatedString data # rest) linenum))
   \<and> ((\<forall>c\<in>set (concat data). hexval c \<noteq> None) \<longrightarrow> hexdata data \<noteq> None)
   \<and> (hexdata data = Some bytes \<and> i < length bytes \<longrightarrow>
        length bytes = (length (concat data) + 1) div 2
        \<and> bytes ! i
            = of_nat (16 * the (hexval ((if odd (length (concat data)) then CHR ''0'' # concat data
                                          else concat data) ! (2 * i)))
                      + the (hexval ((if odd (length (concat data)) then CHR ''0'' # concat data
                                      else concat data) ! (2 * i + 1)))))
   \<and> (mydict (text_of param) \<noteq> None \<and> hexdata data = Some bytes \<longrightarrow>
        reg_params len mydict (param # AnnotatedString data # rest)
          = reg_params len (mydict(text_of param \<mapsto> Tuple len bytes)) rest)
   \<and> (mydict (text_of param) \<noteq> None \<and> concat data = ''F'' \<longrightarrow>
        reg_params len mydict [param, AnnotatedString data]
          = Inr (mydict(text_of param \<mapsto> Tuple len [0x0F])))
   \<and> (sticky self cmd = Some mydict \<and> (\<forall>q\<in>set paramtypes. \<exists>l b. mydict q = Some (Tuple l b))
        \<and> py_int (text_of n) = Some len \<and> text_of param \<in> set paramtypes
        \<and> hexdata data = Some bytes \<longrightarrow>
        \<not> isl (cmd_reg self cmd [n, param, AnnotatedString data] linenum)
        \<and> stored_by (cmd_reg self cmd [n, param, AnnotatedString data] linenum) cmd (text_of param)
            = Some (Tuple len bytes))
   \<and> (sticky self cmd = Some mydict \<and> (\<forall>q\<in>set paramtypes. \<exists>l b. mydict q = Some (Tuple l b))
        \<and> py_int (text_of n) = Some len \<and> text_of param \<in> set paramtypes
        \<and> concat data = ''F'' \<longrightarrow>
        \<not> isl (cmd_reg self cmd [n, param, AnnotatedString data] linenum)
        \<and> stored_by (cmd_reg self cmd [n, param, AnnotatedString data] linenum) cmd (text_of param)
            = Some (Tuple len [0x0F]))
   \<and> (sticky self = init_sticky \<longrightarrow>
        stored_after (parse states float int_eq_float self fname
          [(''SDR'', 1), (''8'', 1), (''TDI'', 1), (''('', 1), (''F'', 1), ('')'', 1), ('';'', 1)])
          ''SDR'' ''TDI'' = Some (Tuple 8 [0x0F]))"
proof (intro conjI impI)
  show "hexdata data
     = unhexlify (if odd (length (concat data)) then CHR ''0'' # concat data else concat data)"
    by (rule hexdata_eq)
next
  assume "concat data = ''F''"
  then show "hexdata data = Some [0x0F]" by (rule hexdata_F)
next
  assume "\<exists>c\<in>set (concat data). hexval c = None"
  then show "hexdata data = None" by (rule hexdata_non_hex)
next
  assume "(\<exists>c\<in>set (concat data). hexval c = None) \<and> mydict (text_of param) \<noteq> None"
  then have "hexdata data = None" and "mydict (text_of param) \<noteq> None"
    by (simp_all add: hexdata_non_hex)
  then show "reg_params len mydict (param # AnnotatedString data # rest)
          = Inl (SvfError [F ''Invalid (<hex data>) for parameter %s'' [S (text_of param)]])"
    by simp
next
  assume a: "(\<exists>c\<in>set (concat data). hexval c = None) \<and> even (length pre)"
  then have h: "hexdata data = None" by (simp add: hexdata_non_hex)
  from a h show "isl (reg_params len mydict (pre @ param # AnnotatedString data # rest))"
    by (simp add: reg_params_non_hex)
next
  assume a: "(\<exists>c\<in>set (concat data). hexval c = None) \<and> even (length pre)"
  then have h: "hexdata data = None" by (simp add: hexdata_non_hex)
  have "reg_params k d (pre @ param # AnnotatedString data # rest) \<noteq> Inr z" for k d z
    using a h reg_params_non_hex [of pre data k d param rest] by auto
  then show "isl (cmd_reg self cmd (n # pre @ param # AnnotatedString data # rest) linenum)"
    by (simp add: cmd_reg_def split: option.splits sum.splits)
next
  assume "\<forall>c\<in>set (concat data). hexval c \<noteq> None"
  then show "hexdata data \<noteq> None" by (simp add: hexdata_none_iff)
next
  assume "hexdata data = Some bytes \<and> i < length bytes"
  then have "hexdata data = Some bytes" and "i < length bytes" by simp_all
  from hexdata_bytes [OF this]
  show "length bytes = (length (concat data) + 1) div 2"
    and "bytes ! i
            = of_nat (16 * the (hexval ((if odd (length (concat data)) then CHR ''0'' # concat data
                                          else concat data) ! (2 * i)))
                      + the (hexval ((if odd (length (concat data)) then CHR ''0'' # concat data
                                      else concat data) ! (2 * i + 1))))"
    by simp_all
next
  assume "mydict (text_of param) \<noteq> None \<and> hexdata data = Some bytes"
  then have m: "mydict (text_of param) \<noteq> None" and h: "hexdata data = Some bytes" by simp_all
  from m h
  show "reg_params len mydict (param # AnnotatedString data # rest)
          = reg_params len (mydict(text_of param \<mapsto> Tuple len bytes)) rest"
    by (rule reg_params_stores)
next
  assume "mydict (text_of param) \<noteq> None \<and> concat data = ''F''"
  then have m: "mydict (text_of param) \<noteq> None" and h: "hexdata data = Some [0x0F]"
    by (simp_all add: hexdata_F)
  have "reg_params len mydict [param, AnnotatedString data]
      = reg_params len (mydict(text_of param \<mapsto> Tuple len [0x0F])) []"
    using m h by (rule reg_params_stores)
  also have "\<dots> = Inr (mydict(text_of param \<mapsto> Tuple len [0x0F]))" by simp
  finally show "reg_params len mydict [param, AnnotatedString data]
          = Inr (mydict(text_of param \<mapsto> Tuple len [0x0F]))" .
next
  assume a: "sticky self cmd = Some mydict \<and> (\<forall>q\<in>set paramtypes. \<exists>l b. mydict q = Some (Tuple l b))
        \<and> py_int (text_of n) = Some len \<and> text_of param \<in> set paramtypes
        \<and> hexdata data = Some bytes"
  then have "sticky self cmd = Some mydict" "\<forall>q\<in>set paramtypes. \<exists>l b. mydict q = Some (Tuple l b)"
    "py_int (text_of n) = Some len" "text_of param \<in> set paramtypes" "hexdata data = Some bytes"
    by simp_all
  from cmd_reg_stores [OF this]
  show "\<not> isl (cmd_reg self cmd [n, param, AnnotatedString data] linenum)"
    and "stored_by (cmd_reg self cmd [n, param, AnnotatedString data] linenum) cmd (text_of param)
            = Some (Tuple len bytes)"
    by simp_all
next
  assume a: "sticky self cmd = Some mydict \<and> (\<forall>q\<in>set paramtypes. \<exists>l b. mydict q = Some (Tuple l b))
        \<and> py_int (text_of n) = Some len \<and> text_of param \<in> set paramtypes
        \<and> concat data = ''F''"
  then have "sticky self cmd = Some mydict" "\<forall>q\<in>set paramtypes. \<exists>l b. mydict q = Some (Tuple l b)"
    "py_int (text_of n) = Some len" "text_of param \<in> set paramtypes" "hexdata data = Some [0x0F]"
    by (simp_all add: hexdata_F)
  from cmd_reg_stores [OF this]
  show "\<not> isl (cmd_reg self cmd [n, param, AnnotatedString data] linenum)"
    and "stored_by (cmd_reg self cmd [n, param, AnnotatedString data] linenum) cmd (text_of param)
            = Some (Tuple len [0x0F])"
    by simp_all
next
  assume "sticky self = init_sticky"
  then show "stored_after (parse states float int_eq_float self fname
          [(''SDR'', 1), (''8'', 1), (''TDI'', 1), (''('', 1), (''F'', 1), ('')'', 1), ('';'', 1)])
          ''SDR'' ''TDI'' = Some (Tuple 8 [0x0F])"
    by (simp add: eval_defs)
qed

theorem hexdata_pads_odd_and_rejects_non_hex_witness:
  "hexdata [''F''] = Some [0x0F]
   \<and> hexdata [''A'', ''BC''] = Some [0x0A, 0xBC]
   \<and> hexdata [''cd'', ''EF''] = Some [0xCD, 0xEF]
   \<and> hexdata [''A'', ''BG''] = None
   \<and> reg_params 8 init_reg [Str ''TDI'', AnnotatedString [''A'', ''BG'']]
       = Inl (SvfError [F ''Invalid (<hex data>) for parameter %s'' [S ''TDI'']])
   \<and> isl (cmd_reg example_session ''SDR''
             [Str ''8'', Str ''MASK'', AnnotatedString [''FF''], Str ''TDI'', AnnotatedString [''A'', ''BG'']] 3)
   \<and> reg_params 8 init_reg [Str ''TDI'', AnnotatedString [''F'']]
       = Inr (init_reg(''TDI'' \<mapsto> Tuple 8 [0x0F]))
   \<and> \<not> isl (cmd_reg example_session ''SDR'' [Str ''8'', Str ''TDI'', AnnotatedString [''F'']] 3)
   \<and> stored_by (cmd_reg example_session ''SDR'' [Str ''8'', Str ''TDI'', AnnotatedString [''F'']] 3)
        ''SDR'' ''TDI'' = Some (Tuple 8 [0x0F])
   \<and> stored_by (cmd_reg example_session ''SDR'' [Str ''12'', Str ''TDO'', AnnotatedString [''a'', ''BC'']] 3)
        ''SDR'' ''TDO'' = Some (Tuple 12 [0x0A, 0xBC])
   \<and> stored_by (cmd_shift example_session ''SDR'' [Str ''8'', Str ''TDI'', AnnotatedString [''F'']] 3)
        ''SDR'' ''TDI'' = Some (Tuple 8 [0x0F])
   \<and> stored_after (parse (states_of example_jtagstates) example_float example_int_eq_float
          example_session ''f.svf''
          [(''sdr'', 1), (''8'', 1), (''tdi'', 1), (''('', 1), (''f'', 1), ('')'', 1), ('';'', 1)])
        ''SDR'' ''TDI'' = Some (Tuple 8 [0x0F])"
  using hexdata_pads_odd_and_rejects_non_hex
      [where data = "[''F'']" and mydict = init_reg and param = "Str ''TDI''" and len = 8
         and rest = "[]" and pre = "[]" and self = example_session and cmd = "''SDR''"
         and n = "Str ''8''" and linenum = 3 and bytes = "[0x0F]" and i = 0
         and states = "states_of example_jtagstates" and float = example_float
         and int_eq_float = example_int_eq_float and fname = "''f.svf''"]
    hexdata_pads_odd_and_rejects_non_hex
      [where data = "[''A'', ''BG'']" and mydict = init_reg and param = "Str ''TDI''" and len = 8
         and rest = "[]" and pre = "[Str ''MASK'', AnnotatedString [''FF'']]"
         and self = example_session and cmd = "''SDR''"
         and n = "Str ''8''" and linenum = 3 and bytes = "[]" and i = 0
         and states = "states_of example_jtagstates" and float = example_float
         and int_eq_float = example_int_eq_float and fname = "''f.svf''"]
  by (simp add: eval_defs stored_by_def example_session_def)

end
